theory Spec2Isabelle
  imports Complex_Main
begin

section \<open>JavaScript values as the dashboard receives them\<close>

text \<open>
  Every payload the dashboard handles comes out of \<open>response.json()\<close> or \<open>JSON.parse\<close>,
  so a value is a JSON value, or \<open>undefined\<close> (what reading a missing property gives).
  Numbers are exact rationals: rounding, infinities and NaN do not occur in what follows.
  An object lists its own properties in enumeration order, with distinct keys; none of
  them is a function, since JSON has none. A string is the UTF-8 of its text, as a list
  of bytes; a surrogate that stands alone is written as its three bytes.
\<close>

datatype jsval =
    JUndefined
  | JNull
  | JBool bool
  | JNum rat
  | JStr string
  | JArr "jsval list"
  | JObj "(string \<times> jsval) list"

datatype error =
    TypeError
  | SyntaxError string
  | HttpError nat string
  | NetworkError string

text \<open>ToBoolean, as \<open>if (x)\<close>, \<open>!x\<close>, \<open>x || y\<close> and \<open>c ? a : b\<close> apply it.\<close>

fun truthy :: "jsval \<Rightarrow> bool" where
  "truthy JUndefined = False"
| "truthy JNull = False"
| "truthy (JBool b) = b"
| "truthy (JNum x) = (x \<noteq> 0)"
| "truthy (JStr s) = (s \<noteq> [])"
| "truthy (JArr xs) = True"
| "truthy (JObj kvs) = True"

definition js_or :: "jsval \<Rightarrow> jsval \<Rightarrow> jsval" where
  \<comment> \<open>\<open>a || b\<close>\<close>
  "js_or a b = (if truthy a then a else b)"

definition nullish :: "jsval \<Rightarrow> bool" where
  "nullish v = (v = JUndefined \<or> v = JNull)"

text \<open>
  The language counts a string in UTF-16 code units. A byte that starts a character
  stands for one unit, or for two when the character lies outside the basic plane (four
  bytes); a byte that continues a character stands for none.
\<close>

definition utf16_units :: "char \<Rightarrow> nat" where
  "utf16_units c =
     (let b = (of_char c :: nat)
      in if b < 128 then 1 else if b < 192 then 0 else if b < 240 then 1 else 2)"

definition utf16_length :: "string \<Rightarrow> nat" where
  "utf16_length s = sum_list (map utf16_units s)"



text \<open>
  \<open>v.k\<close> and \<open>v[k]\<close> for a string key: a TypeError on \<open>undefined\<close> and \<open>null\<close>, the
  own property of an object, the \<open>length\<close> of an array or a string, and \<open>undefined\<close>
  for every other key the dashboard reads (none of them is a member of a prototype).
\<close>

fun get_prop :: "jsval \<Rightarrow> string \<Rightarrow> error + jsval" where
  "get_prop JUndefined k = Inl TypeError"
| "get_prop JNull k = Inl TypeError"
| "get_prop (JObj kvs) k = Inr (case map_of kvs k of Some v \<Rightarrow> v | None \<Rightarrow> JUndefined)"
| "get_prop (JArr xs) k = Inr (if k = ''length'' then JNum (of_nat (length xs)) else JUndefined)"
| "get_prop (JStr s) k =
     Inr (if k = ''length'' then JNum (of_nat (utf16_length s)) else JUndefined)"
| "get_prop (JBool b) k = Inr JUndefined"
| "get_prop (JNum x) k = Inr JUndefined"



text \<open>\<open>a === b\<close> where one side is a primitive read from the DOM: an object or an array is
  never identical to it.\<close>

fun strict_eq :: "jsval \<Rightarrow> jsval \<Rightarrow> bool" where
  "strict_eq (JArr xs) b = False"
| "strict_eq (JObj kvs) b = False"
| "strict_eq a b = (a = b)"

section \<open>Text built by template literals\<close>

text \<open>
  A template literal is the list of its parts: the literal chunks and the interpolated
  values. The text a conversion gives is the language's and stays symbolic, as do
  \<open>x.toFixed(1)\<close>, \<open>new Date(s).toLocaleString('zh-CN')\<close> and the name of a member of
  \<open>Object.prototype\<close>.
\<close>

text \<open>
  Whether a conversion throws is written out where a function shows values of a payload
  whose shape it does not fix (loadStats and loadModels); the answer to a submission is
  read as \<open>{success, detail}\<close> with a detail that can be converted, and the fields of a
  Record are typed. Converting a value to a string calls its
  \<open>toString\<close>: an object whose own property \<open>toString\<close> hides the inherited method has
  nothing callable there, and the inherited \<open>valueOf\<close> gives no primitive, so the
  conversion is a TypeError; an array joins the conversions of its elements (\<open>null\<close> and
  \<open>undefined\<close> give the empty string). \<open>v.toLocaleString()\<close> of an object is a TypeError
  when an own property hides \<open>toLocaleString\<close>, or hides the \<open>toString\<close> the inherited
  method calls; of an array, when it is one for an element.
\<close>

fun to_string_throws :: "jsval \<Rightarrow> bool" where
  "to_string_throws (JObj kvs) = (map_of kvs ''toString'' \<noteq> None)"
| "to_string_throws (JArr xs) = (\<exists>x \<in> set xs. to_string_throws x)"
| "to_string_throws v = False"

fun to_locale_string_throws :: "jsval \<Rightarrow> bool" where
  "to_locale_string_throws (JObj kvs) =
     (map_of kvs ''toLocaleString'' \<noteq> None \<or> map_of kvs ''toString'' \<noteq> None)"
| "to_locale_string_throws (JArr xs) = (\<exists>x \<in> set xs. to_locale_string_throws x)"
| "to_locale_string_throws v = False"

datatype part =
    Lit string
  | Val jsval
  | Fixed1 rat
  | LocaleDate jsval
  | ProtoMember string

type_synonym jstext = "part list"

subsection \<open>The literal texts of the source\<close>

text \<open>The Chinese texts of the notifications and labels, as their UTF-8 bytes; each
  comment gives the meaning and the code points.\<close>

definition txt_seconds :: string where
  \<comment> \<open>seconds (U+79D2)\<close>
  "txt_seconds = [CHR 0xE7, CHR 0xA7, CHR 0x92]"

definition txt_minutes :: string where
  \<comment> \<open>minutes (U+5206 U+949F)\<close>
  "txt_minutes = [CHR 0xE5, CHR 0x88, CHR 0x86, CHR 0xE9, CHR 0x92, CHR 0x9F]"

definition txt_hours :: string where
  \<comment> \<open>hours (U+5C0F U+65F6)\<close>
  "txt_hours = [CHR 0xE5, CHR 0xB0, CHR 0x8F, CHR 0xE6, CHR 0x97, CHR 0xB6]"

definition msg_request_failed :: string where
  \<comment> \<open>request failed:  (U+8BF7 U+6C42 U+5931 U+8D25)\<close>
  "msg_request_failed = [CHR 0xE8, CHR 0xAF, CHR 0xB7, CHR 0xE6, CHR 0xB1, CHR 0x82, CHR 0xE5,
     CHR 0xA4, CHR 0xB1, CHR 0xE8, CHR 0xB4, CHR 0xA5] @ '': ''"

definition msg_fill_model_and_dataset :: string where
  \<comment> \<open>please fill in model and dataset (U+8BF7 U+586B U+5199 U+6A21 U+578B U+548C
      U+6570 U+636E U+96C6)\<close>
  "msg_fill_model_and_dataset = [CHR 0xE8, CHR 0xAF, CHR 0xB7, CHR 0xE5, CHR 0xA1, CHR 0xAB,
     CHR 0xE5, CHR 0x86, CHR 0x99, CHR 0xE6, CHR 0xA8, CHR 0xA1, CHR 0xE5, CHR 0x9E, CHR 0x8B,
     CHR 0xE5, CHR 0x92, CHR 0x8C, CHR 0xE6, CHR 0x95, CHR 0xB0, CHR 0xE6, CHR 0x8D, CHR 0xAE,
     CHR 0xE9, CHR 0x9B, CHR 0x86]"

definition msg_config_json_error :: string where
  \<comment> \<open>config parameter JSON format error (U+914D U+7F6E U+53C2 U+6570 U+683C U+5F0F
      U+9519 U+8BEF)\<close>
  "msg_config_json_error = [CHR 0xE9, CHR 0x85, CHR 0x8D, CHR 0xE7, CHR 0xBD, CHR 0xAE, CHR 0xE5,
     CHR 0x8F, CHR 0x82, CHR 0xE6, CHR 0x95, CHR 0xB0] @ ''JSON'' @ [CHR 0xE6, CHR 0xA0,
     CHR 0xBC, CHR 0xE5, CHR 0xBC, CHR 0x8F, CHR 0xE9, CHR 0x94, CHR 0x99, CHR 0xE8, CHR 0xAF,
     CHR 0xAF]"

definition msg_single_created :: string where
  \<comment> \<open>single-model evaluation task created (U+5355 U+6A21 U+578B U+6D4B U+8BC4
      U+4EFB U+52A1 U+5DF2 U+521B U+5EFA)\<close>
  "msg_single_created = [CHR 0xE5, CHR 0x8D, CHR 0x95, CHR 0xE6, CHR 0xA8, CHR 0xA1, CHR 0xE5,
     CHR 0x9E, CHR 0x8B, CHR 0xE6, CHR 0xB5, CHR 0x8B, CHR 0xE8, CHR 0xAF, CHR 0x84, CHR 0xE4,
     CHR 0xBB, CHR 0xBB, CHR 0xE5, CHR 0x8A, CHR 0xA1, CHR 0xE5, CHR 0xB7, CHR 0xB2, CHR 0xE5,
     CHR 0x88, CHR 0x9B, CHR 0xE5, CHR 0xBB, CHR 0xBA]"

definition msg_single_failed :: string where
  \<comment> \<open>creating the evaluation task failed:  (U+521B U+5EFA U+6D4B U+8BC4 U+4EFB
      U+52A1 U+5931 U+8D25)\<close>
  "msg_single_failed = [CHR 0xE5, CHR 0x88, CHR 0x9B, CHR 0xE5, CHR 0xBB, CHR 0xBA, CHR 0xE6,
     CHR 0xB5, CHR 0x8B, CHR 0xE8, CHR 0xAF, CHR 0x84, CHR 0xE4, CHR 0xBB, CHR 0xBB, CHR 0xE5,
     CHR 0x8A, CHR 0xA1, CHR 0xE5, CHR 0xA4, CHR 0xB1, CHR 0xE8, CHR 0xB4, CHR 0xA5] @ '': ''"

definition msg_select_a_model :: string where
  \<comment> \<open>please select at least one model (U+8BF7 U+9009 U+62E9 U+81F3 U+5C11 U+4E00
      U+4E2A U+6A21 U+578B)\<close>
  "msg_select_a_model = [CHR 0xE8, CHR 0xAF, CHR 0xB7, CHR 0xE9, CHR 0x80, CHR 0x89, CHR 0xE6,
     CHR 0x8B, CHR 0xA9, CHR 0xE8, CHR 0x87, CHR 0xB3, CHR 0xE5, CHR 0xB0, CHR 0x91, CHR 0xE4,
     CHR 0xB8, CHR 0x80, CHR 0xE4, CHR 0xB8, CHR 0xAA, CHR 0xE6, CHR 0xA8, CHR 0xA1, CHR 0xE5,
     CHR 0x9E, CHR 0x8B]"

definition msg_fill_dataset_name :: string where
  \<comment> \<open>please fill in the dataset name (U+8BF7 U+586B U+5199 U+6570 U+636E U+96C6
      U+540D U+79F0)\<close>
  "msg_fill_dataset_name = [CHR 0xE8, CHR 0xAF, CHR 0xB7, CHR 0xE5, CHR 0xA1, CHR 0xAB, CHR 0xE5,
     CHR 0x86, CHR 0x99, CHR 0xE6, CHR 0x95, CHR 0xB0, CHR 0xE6, CHR 0x8D, CHR 0xAE, CHR 0xE9,
     CHR 0x9B, CHR 0x86, CHR 0xE5, CHR 0x90, CHR 0x8D, CHR 0xE7, CHR 0xA7, CHR 0xB0]"

definition msg_batch_created :: string where
  \<comment> \<open>batch evaluation task created (U+6279 U+91CF U+6D4B U+8BC4 U+4EFB U+52A1
      U+5DF2 U+521B U+5EFA)\<close>
  "msg_batch_created = [CHR 0xE6, CHR 0x89, CHR 0xB9, CHR 0xE9, CHR 0x87, CHR 0x8F, CHR 0xE6,
     CHR 0xB5, CHR 0x8B, CHR 0xE8, CHR 0xAF, CHR 0x84, CHR 0xE4, CHR 0xBB, CHR 0xBB, CHR 0xE5,
     CHR 0x8A, CHR 0xA1, CHR 0xE5, CHR 0xB7, CHR 0xB2, CHR 0xE5, CHR 0x88, CHR 0x9B, CHR 0xE5,
     CHR 0xBB, CHR 0xBA]"

definition msg_batch_failed :: string where
  \<comment> \<open>creating the batch evaluation failed:  (U+521B U+5EFA U+6279 U+91CF U+6D4B
      U+8BC4 U+5931 U+8D25)\<close>
  "msg_batch_failed = [CHR 0xE5, CHR 0x88, CHR 0x9B, CHR 0xE5, CHR 0xBB, CHR 0xBA, CHR 0xE6,
     CHR 0x89, CHR 0xB9, CHR 0xE9, CHR 0x87, CHR 0x8F, CHR 0xE6, CHR 0xB5, CHR 0x8B, CHR 0xE8,
     CHR 0xAF, CHR 0x84, CHR 0xE5, CHR 0xA4, CHR 0xB1, CHR 0xE8, CHR 0xB4, CHR 0xA5] @ '': ''"

definition msg_prompt_reason :: string where
  \<comment> \<open>please enter the reason for adding to the excellent records (optional):
      (U+8BF7 U+8F93 U+5165 U+52A0 U+5165 U+4F18 U+79C0 U+8BB0 U+5F55 U+7684 U+7406 U+7531
      U+FF08 U+53EF U+9009 U+FF09)\<close>
  "msg_prompt_reason = [CHR 0xE8, CHR 0xAF, CHR 0xB7, CHR 0xE8, CHR 0xBE, CHR 0x93, CHR 0xE5,
     CHR 0x85, CHR 0xA5, CHR 0xE5, CHR 0x8A, CHR 0xA0, CHR 0xE5, CHR 0x85, CHR 0xA5, CHR 0xE4,
     CHR 0xBC, CHR 0x98, CHR 0xE7, CHR 0xA7, CHR 0x80, CHR 0xE8, CHR 0xAE, CHR 0xB0, CHR 0xE5,
     CHR 0xBD, CHR 0x95, CHR 0xE7, CHR 0x9A, CHR 0x84, CHR 0xE7, CHR 0x90, CHR 0x86, CHR 0xE7,
     CHR 0x94, CHR 0xB1, CHR 0xEF, CHR 0xBC, CHR 0x88, CHR 0xE5, CHR 0x8F, CHR 0xAF, CHR 0xE9,
     CHR 0x80, CHR 0x89, CHR 0xEF, CHR 0xBC, CHR 0x89] @ '':''"

definition msg_added_to_excellent :: string where
  \<comment> \<open>added to the excellent records (U+5DF2 U+52A0 U+5165 U+4F18 U+79C0 U+8BB0
      U+5F55)\<close>
  "msg_added_to_excellent = [CHR 0xE5, CHR 0xB7, CHR 0xB2, CHR 0xE5, CHR 0x8A, CHR 0xA0,
     CHR 0xE5, CHR 0x85, CHR 0xA5, CHR 0xE4, CHR 0xBC, CHR 0x98, CHR 0xE7, CHR 0xA7, CHR 0x80,
     CHR 0xE8, CHR 0xAE, CHR 0xB0, CHR 0xE5, CHR 0xBD, CHR 0x95]"

definition msg_add_to_excellent_failed :: string where
  \<comment> \<open>adding to the excellent records failed (U+52A0 U+5165 U+4F18 U+79C0 U+8BB0
      U+5F55 U+5931 U+8D25)\<close>
  "msg_add_to_excellent_failed = [CHR 0xE5, CHR 0x8A, CHR 0xA0, CHR 0xE5, CHR 0x85, CHR 0xA5,
     CHR 0xE4, CHR 0xBC, CHR 0x98, CHR 0xE7, CHR 0xA7, CHR 0x80, CHR 0xE8, CHR 0xAE, CHR 0xB0,
     CHR 0xE5, CHR 0xBD, CHR 0x95, CHR 0xE5, CHR 0xA4, CHR 0xB1, CHR 0xE8, CHR 0xB4, CHR 0xA5]"

definition msg_load_records_failed :: string where
  \<comment> \<open>loading the evaluation records failed (U+52A0 U+8F7D U+6D4B U+8BC4 U+8BB0
      U+5F55 U+5931 U+8D25)\<close>
  "msg_load_records_failed = [CHR 0xE5, CHR 0x8A, CHR 0xA0, CHR 0xE8, CHR 0xBD, CHR 0xBD,
     CHR 0xE6, CHR 0xB5, CHR 0x8B, CHR 0xE8, CHR 0xAF, CHR 0x84, CHR 0xE8, CHR 0xAE, CHR 0xB0,
     CHR 0xE5, CHR 0xBD, CHR 0x95, CHR 0xE5, CHR 0xA4, CHR 0xB1, CHR 0xE8, CHR 0xB4, CHR 0xA5]"

definition msg_load_models_failed :: string where
  \<comment> \<open>loading the model data failed (U+52A0 U+8F7D U+6A21 U+578B U+6570 U+636E
      U+5931 U+8D25)\<close>
  "msg_load_models_failed = [CHR 0xE5, CHR 0x8A, CHR 0xA0, CHR 0xE8, CHR 0xBD, CHR 0xBD,
     CHR 0xE6, CHR 0xA8, CHR 0xA1, CHR 0xE5, CHR 0x9E, CHR 0x8B, CHR 0xE6, CHR 0x95, CHR 0xB0,
     CHR 0xE6, CHR 0x8D, CHR 0xAE, CHR 0xE5, CHR 0xA4, CHR 0xB1, CHR 0xE8, CHR 0xB4, CHR 0xA5]"

definition msg_init_done :: string where
  \<comment> \<open>system initialisation finished (U+7CFB U+7EDF U+521D U+59CB U+5316 U+5B8C U+6210)\<close>
  "msg_init_done = [CHR 0xE7, CHR 0xB3, CHR 0xBB, CHR 0xE7, CHR 0xBB, CHR 0x9F, CHR 0xE5, CHR 0x88,
     CHR 0x9D, CHR 0xE5, CHR 0xA7, CHR 0x8B, CHR 0xE5, CHR 0x8C, CHR 0x96, CHR 0xE5, CHR 0xAE,
     CHR 0x8C, CHR 0xE6, CHR 0x88, CHR 0x90]"

definition txt_completed :: string where
  \<comment> \<open>completed (U+5DF2 U+5B8C U+6210)\<close>
  "txt_completed = [CHR 0xE5, CHR 0xB7, CHR 0xB2, CHR 0xE5, CHR 0xAE, CHR 0x8C, CHR 0xE6,
     CHR 0x88, CHR 0x90]"

definition txt_running :: string where
  \<comment> \<open>running (U+8FD0 U+884C U+4E2D)\<close>
  "txt_running = [CHR 0xE8, CHR 0xBF, CHR 0x90, CHR 0xE8, CHR 0xA1, CHR 0x8C, CHR 0xE4, CHR 0xB8,
     CHR 0xAD]"

definition txt_failed :: string where
  \<comment> \<open>failed (U+5931 U+8D25)\<close>
  "txt_failed = [CHR 0xE5, CHR 0xA4, CHR 0xB1, CHR 0xE8, CHR 0xB4, CHR 0xA5]"

definition txt_pending :: string where
  \<comment> \<open>pending (U+7B49 U+5F85 U+4E2D)\<close>
  "txt_pending = [CHR 0xE7, CHR 0xAD, CHR 0x89, CHR 0xE5, CHR 0xBE, CHR 0x85, CHR 0xE4, CHR 0xB8,
     CHR 0xAD]"

definition txt_unnamed_model :: string where
  \<comment> \<open>unnamed model (U+672A U+547D U+540D U+6A21 U+578B)\<close>
  "txt_unnamed_model = [CHR 0xE6, CHR 0x9C, CHR 0xAA, CHR 0xE5, CHR 0x91, CHR 0xBD, CHR 0xE5,
     CHR 0x90, CHR 0x8D, CHR 0xE6, CHR 0xA8, CHR 0xA1, CHR 0xE5, CHR 0x9E, CHR 0x8B]"

definition txt_unknown_type :: string where
  \<comment> \<open>unknown type (U+672A U+77E5 U+7C7B U+578B)\<close>
  "txt_unknown_type = [CHR 0xE6, CHR 0x9C, CHR 0xAA, CHR 0xE7, CHR 0x9F, CHR 0xA5, CHR 0xE7,
     CHR 0xB1, CHR 0xBB, CHR 0xE5, CHR 0x9E, CHR 0x8B]"

section \<open>utils\<close>

definition API_BASE :: string where
  "API_BASE = ''http://localhost:9000''"

definition formatDate :: "jsval \<Rightarrow> jstext" where
  "formatDate dateString =
     (if \<not> truthy dateString then [Lit ''-''] else [LocaleDate dateString])"

text \<open>The two numeric formatters take a number, or nothing (\<open>null\<close> or \<open>undefined\<close>: the
  field of the Record is nullable). \<open>!seconds\<close> holds of nothing and of zero.\<close>

definition formatExecutionTime :: "rat option \<Rightarrow> jstext" where
  "formatExecutionTime seconds =
     (case seconds of
        None \<Rightarrow> [Lit ''-'']
      | Some s \<Rightarrow>
          if s = 0 then [Lit ''-'']
          else if s < 60 then [Fixed1 s, Lit txt_seconds]
          else if s < 3600 then [Fixed1 (s / 60), Lit txt_minutes]
          else [Fixed1 (s / 3600), Lit txt_hours])"

definition formatMemory :: "rat option \<Rightarrow> jstext" where
  "formatMemory mb =
     (case mb of
        None \<Rightarrow> [Lit ''-'']
      | Some m \<Rightarrow>
          if m = 0 then [Lit ''-'']
          else if m < 1024 then [Fixed1 m, Lit '' MB'']
          else [Fixed1 (m / 1024), Lit '' GB''])"

subsection \<open>Requests and what a function does\<close>

text \<open>
  A request as \<open>fetch\<close> receives it. The body is the value handed to \<open>JSON.stringify\<close>
  (every member the dashboard puts in one is defined, so none is dropped).
\<close>

record request =
  req_url :: jstext
  req_method :: string
  req_content_type :: string
  req_body :: "jsval option"

record options =
  opt_method :: "string option"
  opt_body :: "jsval option"

text \<open>What comes back: \<open>fetch\<close> rejects, the status is not ok, the body is not JSON (each with
  its message), or the body's value.\<close>

datatype 'a fetch_result =
    Rejected string
  | NotOk nat string
  | NotJson string
  | Json 'a

text \<open>The rendered list of model cards, and the rendered table of records.\<close>

record model_card =
  card_selected :: bool
  card_data_path :: jsval
  card_name :: jsval
  card_type :: jsval
  card_path :: jsval
  card_parameters :: "jsval option"

datatype models_view = Cards "model_card list" | NoModelsMessage

datatype row_button = ViewButton int | ExcellentButton int

record record_row =
  row_id :: int
  row_model_name :: string
  row_dataset_name :: string
  row_score :: jstext
  row_model_type :: string
  row_status_class :: string
  row_status_text :: jstext
  row_execution_time :: jstext
  row_buttons :: "row_button list"

datatype records_view = Rows "record_row list" | NoRecordsMessage

datatype timer_callback = ProgressPoll | MonitoringRefresh

text \<open>
  The observable steps of a function, in order. \<open>ConsoleLog\<close> and \<open>ConsoleError\<close> are
  calls of \<open>console.log\<close> and \<open>console.error\<close> (what they print is left out),
  \<open>Notify\<close> is \<open>utils.showNotification(message, type)\<close>, \<open>ShowLoading\<close> is
  \<open>utils.showLoading\<close>, \<open>FormReset\<close> is \<open>form.reset()\<close> of the form with that id,
  \<open>SetTextContent\<close> assigns the \<open>textContent\<close> of the element with that id, and the two
  \<open>Render\<close> steps assign the \<open>innerHTML\<close> of the list of models and of the body of the
  records table. \<open>Call\<close> is a call of another method of the dashboard, whose own steps
  are not listed with the caller's; \<open>SetInterval\<close> registers a callback with a delay in
  milliseconds. The elements a function looks up by id are in the document, except where
  the source tests for one.
\<close>

datatype effect =
    ConsoleLog
  | ConsoleError
  | Fetch request
  | Notify jstext string
  | ShowLoading bool
  | FormReset string
  | Call string
  | Prompt string
  | SetTextContent string jstext
  | RenderModels models_view
  | BindCardClicks
  | RenderRecords records_view
  | SetInterval timer_callback nat

definition showNotification :: "jstext \<Rightarrow> string \<Rightarrow> effect list" where
  "showNotification message kind = [Notify message kind]"

definition make_request :: "jstext \<Rightarrow> options \<Rightarrow> request" where
  \<comment> \<open>the arguments of \<open>fetch\<close>: the default method is GET\<close>
  "make_request path opts =
     \<lparr> req_url = Lit API_BASE # path,
       req_method = (case opt_method opts of None \<Rightarrow> ''GET'' | Some m \<Rightarrow> m),
       req_content_type = ''application/json'',
       req_body = opt_body opts \<rparr>"

definition api_issue :: "jstext \<Rightarrow> options \<Rightarrow> effect list" where
  \<comment> \<open>apiRequest up to its first \<open>await\<close>\<close>
  "api_issue path opts = [ConsoleLog, Fetch (make_request path opts)]"

definition request_failed :: "error \<Rightarrow> jstext \<Rightarrow> effect list \<times> (error + 'a)" where
  \<comment> \<open>the catch block of apiRequest: log, notify with \<open>error.message\<close>, throw the error on\<close>
  "request_failed e message =
     ([ConsoleError] @ showNotification (Lit msg_request_failed # message) ''error'', Inl e)"

definition api_settle :: "'a fetch_result \<Rightarrow> effect list \<times> (error + 'a)" where
  \<comment> \<open>apiRequest after the \<open>await\<close>: the parsed body, or the error\<close>
  "api_settle res =
     (case res of
        Json v \<Rightarrow> ([], Inr v)
      | Rejected m \<Rightarrow> request_failed (NetworkError m) [Val (JStr m)]
      | NotOk code status_text \<Rightarrow>
          request_failed (HttpError code status_text)
            [Lit ''HTTP '', Val (JNum (of_nat code)), Lit '': '', Val (JStr status_text)]
      | NotJson m \<Rightarrow> request_failed (SyntaxError m) [Val (JStr m)])"

definition apiRequest :: "jstext \<Rightarrow> options \<Rightarrow> 'a fetch_result \<Rightarrow> effect list \<times> (error + 'a)" where
  "apiRequest path opts res =
     (api_issue path opts @ fst (api_settle res), snd (api_settle res))"

definition get_opts :: options where
  "get_opts = \<lparr> opt_method = None, opt_body = None \<rparr>"

definition post_opts :: "jsval \<Rightarrow> options" where
  "post_opts payload = \<lparr> opt_method = Some ''POST'', opt_body = Some payload \<rparr>"

definition posts :: "effect list \<Rightarrow> request list" where
  \<comment> \<open>the POST requests among the steps\<close>
  "posts es = concat (map (\<lambda>e. case e of Fetch r \<Rightarrow> (if req_method r = ''POST'' then [r] else []) | _ \<Rightarrow> []) es)"

section \<open>dashboard\<close>






section \<open>models\<close>

definition rawData :: "jsval \<Rightarrow> error + jsval" where
  \<comment> \<open>\<open>response.data || response\<close>\<close>
  "rawData response =
     (case get_prop response ''data'' of
        Inl e \<Rightarrow> Inl e
      | Inr d \<Rightarrow> Inr (js_or d response))"

definition modelsList :: "jsval \<Rightarrow> jsval list" where
  \<comment> \<open>an array as it is, the values of an object (\<open>null\<close> is excluded by \<open>rawData &&\<close>),
      and the empty list otherwise\<close>
  "modelsList raw =
     (case raw of
        JArr xs \<Rightarrow> xs
      | JObj kvs \<Rightarrow> map snd kvs
      | _ \<Rightarrow> [])"

text \<open>One card of the template. \<open>card_parameters\<close> is \<open>None\<close> for the text "unknown" of a
  missing count, and \<open>Some p\<close> for \<open>p.toLocaleString() || "unknown"\<close>. The template throws
  a TypeError when the model is \<open>null\<close> or \<open>undefined\<close>, when one of the values it
  interpolates cannot be converted to a string, and when \<open>toLocaleString\<close> of the
  parameters throws.\<close>

definition render_model_card :: "jsval \<Rightarrow> jsval \<Rightarrow> error + model_card" where
  "render_model_card selectedModel model =
     (case get_prop model ''path'' of
        Inl e \<Rightarrow> Inl e
      | Inr path \<Rightarrow>
          (case get_prop model ''name'' of
             Inl e \<Rightarrow> Inl e
           | Inr name \<Rightarrow>
               (case get_prop model ''type'' of
                  Inl e \<Rightarrow> Inl e
                | Inr ty \<Rightarrow>
                    (case get_prop model ''parameters'' of
                       Inl e \<Rightarrow> Inl e
                     | Inr parameters \<Rightarrow>
                         if to_string_throws (js_or path (JStr [])) \<or>
                            to_string_throws (js_or name (JStr txt_unnamed_model)) \<or>
                            to_string_throws (js_or ty (JStr txt_unknown_type)) \<or>
                            to_string_throws (js_or path (JStr ''-'')) \<or>
                            (\<not> nullish parameters \<and> to_locale_string_throws parameters)
                         then Inl TypeError
                         else
                         Inr \<lparr> card_selected = strict_eq path selectedModel,
                               card_data_path = js_or path (JStr []),
                               card_name = js_or name (JStr txt_unnamed_model),
                               card_type = js_or ty (JStr txt_unknown_type),
                               card_path = js_or path (JStr ''-''),
                               card_parameters =
                                 (if nullish parameters then None else Some parameters) \<rparr>))))"

fun render_cards :: "jsval \<Rightarrow> jsval list \<Rightarrow> error + model_card list" where
  "render_cards selectedModel [] = Inr []"
| "render_cards selectedModel (model # rest) =
     (case render_model_card selectedModel model of
        Inl e \<Rightarrow> Inl e
      | Inr c \<Rightarrow>
          (case render_cards selectedModel rest of
             Inl e \<Rightarrow> Inl e
           | Inr cards \<Rightarrow> Inr (c # cards)))"

definition load_models_failed :: "effect list" where
  \<comment> \<open>the catch block of loadModels\<close>
  "load_models_failed = [ConsoleError] @ showNotification [Lit msg_load_models_failed] ''error''"

text \<open>Every card holds literal text, so the joined cards are the empty string (and the
  message for no models is shown) exactly when there is no card.\<close>

definition loadModels :: "jsval \<Rightarrow> jsval fetch_result \<Rightarrow> effect list" where
  "loadModels selectedModel res =
     [ShowLoading True] @
     fst (apiRequest [Lit ''/api/models''] get_opts res) @
     (case snd (apiRequest [Lit ''/api/models''] get_opts res) of
        Inl e \<Rightarrow> load_models_failed
      | Inr response \<Rightarrow>
          (case rawData response of
             Inl e \<Rightarrow> load_models_failed
           | Inr raw \<Rightarrow>
               [ConsoleLog, ConsoleLog] @
               (case render_cards selectedModel (modelsList raw) of
                  Inl e \<Rightarrow> load_models_failed
                | Inr cards \<Rightarrow>
                    [RenderModels (if cards = [] then NoModelsMessage else Cards cards),
                     BindCardClicks]))) @
     [ShowLoading False]"

section \<open>evaluation\<close>

text \<open>
  What submitSingleEvaluation reads from the page: the entry of the form data named
  \<open>model-select\<close> (\<open>None\<close> when the form has no such entry), and the values of the three
  inputs. \<open>String.prototype.trim\<close> and \<open>JSON.parse\<close> are the language's, and parameters
  here; \<open>JSON.parse\<close> gives \<open>None\<close> where it throws.
\<close>

record single_form =
  formdata_model_select :: "string option"
  model_select_value :: string
  dataset_input :: string
  config_json :: string

definition modelPath :: "single_form \<Rightarrow> string" where
  \<comment> \<open>\<open>formData.get('model-select') || document.getElementById('model-select').value\<close>\<close>
  "modelPath f =
     (case formdata_model_select f of
        None \<Rightarrow> model_select_value f
      | Some s \<Rightarrow> if s \<noteq> [] then s else model_select_value f)"

definition single_body :: "string \<Rightarrow> string \<Rightarrow> jsval \<Rightarrow> jsval" where
  "single_body model_path dataset_name config =
     JObj [(''model_path'', JStr model_path), (''dataset_name'', JStr dataset_name),
           (''config'', config)]"

definition submitSingleEvaluation ::
  "(string \<Rightarrow> string) \<Rightarrow> (string \<Rightarrow> jsval option) \<Rightarrow> single_form \<Rightarrow> jsval fetch_result \<Rightarrow> effect list" where
  "submitSingleEvaluation trim JSON_parse f res =
     (let configText = trim (config_json f) in
      if modelPath f = [] \<or> dataset_input f = [] then
        showNotification [Lit msg_fill_model_and_dataset] ''warning''
      else
        (case (if configText \<noteq> [] then JSON_parse configText else Some JNull) of
           None \<Rightarrow> showNotification [Lit msg_config_json_error] ''error''
         | Some config \<Rightarrow>
             [ShowLoading True] @
             fst (apiRequest [Lit ''/api/evaluation/single'']
                    (post_opts (single_body (modelPath f) (dataset_input f) config)) res) @
             (case snd (apiRequest [Lit ''/api/evaluation/single'']
                          (post_opts (single_body (modelPath f) (dataset_input f) config)) res) of
                Inl e \<Rightarrow> [ConsoleError]
              | Inr response \<Rightarrow>
                  (case get_prop response ''success'' of
                     Inl e \<Rightarrow> [ConsoleError]
                   | Inr success \<Rightarrow>
                       if truthy success then
                         showNotification [Lit msg_single_created] ''success'' @
                         [FormReset ''single-evaluation-form'', Call ''evaluation.loadTaskProgress'']
                       else
                         (case get_prop response ''detail'' of
                            Inl e \<Rightarrow> [ConsoleError]
                          | Inr detail \<Rightarrow>
                              showNotification [Lit msg_single_failed, Val detail] ''error''))) @
             [ShowLoading False]))"

text \<open>What submitBatchEvaluation reads: the values of the checked boxes, in document
  order, and the values of the three other inputs.\<close>

record batch_form =
  selectedModels :: "string list"
  batch_dataset_input :: string
  task_name_input :: string
  parallel_execution :: string

definition batch_body :: "string list \<Rightarrow> string \<Rightarrow> string \<Rightarrow> bool \<Rightarrow> jsval" where
  "batch_body model_paths dataset_name task_name parallel =
     JObj [(''model_paths'', JArr (map JStr model_paths)), (''dataset_name'', JStr dataset_name),
           (''task_name'', JStr task_name), (''parallel'', JBool parallel)]"

definition submitBatchEvaluation :: "batch_form \<Rightarrow> jsval fetch_result \<Rightarrow> effect list" where
  "submitBatchEvaluation f res =
     (let parallel = (parallel_execution f = ''true'') in
      if length (selectedModels f) = 0 then
        showNotification [Lit msg_select_a_model] ''warning''
      else if batch_dataset_input f = [] then
        showNotification [Lit msg_fill_dataset_name] ''warning''
      else
        [ShowLoading True] @
        fst (apiRequest [Lit ''/api/evaluation/batch'']
               (post_opts (batch_body (selectedModels f) (batch_dataset_input f)
                             (task_name_input f) parallel)) res) @
        (case snd (apiRequest [Lit ''/api/evaluation/batch'']
                     (post_opts (batch_body (selectedModels f) (batch_dataset_input f)
                                   (task_name_input f) parallel)) res) of
           Inl e \<Rightarrow> [ConsoleError]
         | Inr response \<Rightarrow>
             (case get_prop response ''success'' of
                Inl e \<Rightarrow> [ConsoleError]
              | Inr success \<Rightarrow>
                  if truthy success then
                    showNotification [Lit msg_batch_created] ''success'' @
                    [FormReset ''batch-evaluation-form'', Call ''evaluation.loadTaskProgress'']
                  else
                    (case get_prop response ''detail'' of
                       Inl e \<Rightarrow> [ConsoleError]
                     | Inr detail \<Rightarrow>
                         showNotification [Lit msg_batch_failed, Val detail] ''error''))) @
        [ShowLoading False])"

definition startProgressPolling :: "effect list" where
  "startProgressPolling = [SetInterval ProgressPoll 5000]"

section \<open>monitoring: the timer\<close>

definition startAutoRefresh :: "effect list" where
  "startAutoRefresh = [SetInterval MonitoringRefresh 10000]"

definition progress_poll :: "(string \<Rightarrow> bool) \<Rightarrow> effect list" where
  \<comment> \<open>the callback of startProgressPolling, given which elements the document has\<close>
  "progress_poll has_element =
     (if has_element ''task-progress'' then [Call ''evaluation.loadTaskProgress''] else [])"

section \<open>records\<close>

text \<open>A Record as \<open>/api/records\<close> lists it, with the fields loadRecords reads, typed as
  the data model gives them (\<open>score\<close> and \<open>execution_time\<close> are nullable numbers).\<close>

record eval_record =
  rec_id :: int
  model_name :: string
  dataset_name :: string
  score :: "rat option"
  model_type :: string
  status :: string
  execution_time :: "rat option"

definition object_prototype_members :: "string list" where
  \<comment> \<open>the names an object literal inherits: \<open>statusMap[status]\<close> finds a member under them\<close>
  "object_prototype_members =
     [''constructor'', ''hasOwnProperty'', ''isPrototypeOf'', ''propertyIsEnumerable'',
      ''toLocaleString'', ''toString'', ''valueOf'', ''__proto__'', ''__defineGetter__'',
      ''__defineSetter__'', ''__lookupGetter__'', ''__lookupSetter__'']"

definition getStatusText :: "string \<Rightarrow> jstext" where
  \<comment> \<open>\<open>statusMap[status] || status\<close>\<close>
  "getStatusText st =
     (if st = ''completed'' then [Lit txt_completed]
      else if st = ''running'' then [Lit txt_running]
      else if st = ''failed'' then [Lit txt_failed]
      else if st = ''pending'' then [Lit txt_pending]
      else if st \<in> set object_prototype_members then [ProtoMember st]
      else [Val (JStr st)])"

definition score_cell :: "rat option \<Rightarrow> jstext" where
  \<comment> \<open>\<open>record.score || '-'\<close>\<close>
  "score_cell sc =
     (case sc of
        None \<Rightarrow> [Lit ''-'']
      | Some x \<Rightarrow> if x = 0 then [Lit ''-''] else [Val (JNum x)])"

text \<open>One row of the table: seven cells, then the buttons. The view button is always
  there; the button that adds the record to the excellent ones is rendered under
  \<open>record.status === 'completed'\<close>.\<close>

definition render_record_row :: "eval_record \<Rightarrow> record_row" where
  "render_record_row r =
     \<lparr> row_id = rec_id r,
       row_model_name = model_name r,
       row_dataset_name = dataset_name r,
       row_score = score_cell (score r),
       row_model_type = model_type r,
       row_status_class = ''status-'' @ status r,
       row_status_text = getStatusText (status r),
       row_execution_time = formatExecutionTime (execution_time r),
       row_buttons =
         ViewButton (rec_id r) #
         (if status r = ''completed'' then [ExcellentButton (rec_id r)] else []) \<rparr>"

text \<open>The payload of loadRecords is \<open>response.data\<close>: the list, or nothing.\<close>

definition loadRecords :: "nat \<Rightarrow> nat \<Rightarrow> eval_record list option fetch_result \<Rightarrow> effect list" where
  "loadRecords page limit res =
     [ShowLoading True] @
     fst (apiRequest [Lit ''/api/records?page='', Val (JNum (of_nat page)),
                      Lit ''&limit='', Val (JNum (of_nat limit))] get_opts res) @
     (case snd (apiRequest [Lit ''/api/records?page='', Val (JNum (of_nat page)),
                            Lit ''&limit='', Val (JNum (of_nat limit))] get_opts res) of
        Inl e \<Rightarrow> [ConsoleError] @ showNotification [Lit msg_load_records_failed] ''error''
      | Inr payload \<Rightarrow>
          (let records = (case payload of None \<Rightarrow> [] | Some rs \<Rightarrow> rs) in
           [RenderRecords (if records = [] then NoRecordsMessage
                           else Rows (map render_record_row records))])) @
     [ShowLoading False]"

definition excellent_body :: "string option \<Rightarrow> jsval" where
  \<comment> \<open>\<open>prompt\<close> gives the text, or \<open>null\<close> when it is dismissed\<close>
  "excellent_body reason =
     JObj [(''reason'', (case reason of None \<Rightarrow> JNull | Some s \<Rightarrow> JStr s)),
           (''category'', JStr ''general'')]"

definition excellent_path :: "int \<Rightarrow> jstext" where
  "excellent_path recordId = [Lit ''/api/records/'', Val (JNum (of_int recordId)), Lit ''/excellent'']"

definition addToExcellent :: "int \<Rightarrow> string option \<Rightarrow> jsval fetch_result \<Rightarrow> effect list" where
  "addToExcellent recordId reason res =
     [Prompt msg_prompt_reason] @
     fst (apiRequest (excellent_path recordId) (post_opts (excellent_body reason)) res) @
     (case snd (apiRequest (excellent_path recordId) (post_opts (excellent_body reason)) res) of
        Inl e \<Rightarrow> [ConsoleError]
      | Inr response \<Rightarrow>
          (case get_prop response ''success'' of
             Inl e \<Rightarrow> [ConsoleError]
           | Inr success \<Rightarrow>
               if truthy success then
                 showNotification [Lit msg_added_to_excellent] ''success'' @
                 [Call ''records.loadRecords'']
               else
                 showNotification [Lit msg_add_to_excellent_failed] ''error''))"

subsection \<open>The Record Store behind the promotion endpoint\<close>

text \<open>
  Modelled from the spec: the server is not among the sources, so the operation
  \<open>promote(id, reason, category)\<close> of the Record Store and the answer of
  \<open>POST /api/records/{id}/excellent\<close> follow the specification's words: the promotion
  fails with NotFound if the id is absent and with InvalidState if the Record is not
  completed; otherwise it attaches an ExcellentRecord to the Record. An error is answered
  as \<open>{success: false, detail}\<close>, a promotion as \<open>{success: true}\<close>.
\<close>

record excellent_record =
  ex_record_id :: int
  ex_reason :: "string option"
  ex_category :: string

record record_store =
  store_records :: "eval_record list"
  store_excellent :: "excellent_record list"

datatype store_error = NotFound | InvalidState

definition promote ::
  "record_store \<Rightarrow> int \<Rightarrow> string option \<Rightarrow> string \<Rightarrow> store_error + record_store" where
  \<comment> \<open>Modelled from the spec: the Record Store's promote, absent from the sources\<close>
  "promote st i reason category =
     (case find (\<lambda>r. rec_id r = i) (store_records st) of
        None \<Rightarrow> Inl NotFound
      | Some r \<Rightarrow>
          if status r \<noteq> ''completed'' then Inl InvalidState
          else Inr (st\<lparr>store_excellent := store_excellent st @
                        [\<lparr> ex_record_id = i, ex_reason = reason, ex_category = category \<rparr>]\<rparr>))"

definition promote_response :: "store_error + record_store \<Rightarrow> jsval" where
  \<comment> \<open>Modelled from the spec: the answer of the promotion endpoint, absent from the sources\<close>
  "promote_response outcome =
     (case outcome of
        Inl NotFound \<Rightarrow> JObj [(''success'', JBool False), (''detail'', JStr ''NotFound'')]
      | Inl InvalidState \<Rightarrow> JObj [(''success'', JBool False), (''detail'', JStr ''InvalidState'')]
      | Inr st \<Rightarrow> JObj [(''success'', JBool True)])"

section \<open>monitoring: the GPU chart\<close>

record chart =
  labels :: "string list"
  chart_data :: "nat list"

record monitoring =
  gpuChart :: "chart option"

definition initial_monitoring :: monitoring where
  \<comment> \<open>the object literal \<open>monitoring\<close> has no \<open>gpuChart\<close> before initChart\<close>
  "initial_monitoring = \<lparr> gpuChart = None \<rparr>"

definition initChart :: "bool \<Rightarrow> monitoring \<Rightarrow> monitoring" where
  \<comment> \<open>\<open>has_canvas\<close>: the document has the element \<open>gpu-chart\<close>\<close>
  "initChart has_canvas m =
     (if \<not> has_canvas then m
      else m\<lparr>gpuChart := Some \<lparr> labels = [], chart_data = [] \<rparr>\<rparr>)"

text \<open>
  What updateChart finds in the document: no element \<open>#gpu-status .gpu-info\<close>, one
  without a second paragraph, or the text of that paragraph.
\<close>

datatype gpu_info = NoGpuInfo | NoSecondParagraph | SecondParagraph string

definition is_digit :: "char \<Rightarrow> bool" where
  "is_digit c = (c \<in> set ''0123456789'')"

definition match_here :: "string \<Rightarrow> string option" where
  \<comment> \<open>\<open>(\d+)%\<close> at the start of the string: the longest run of digits, then the sign\<close>
  "match_here s =
     (let ds = takeWhile is_digit s in
      case dropWhile is_digit s of
        [] \<Rightarrow> None
      | c # rest \<Rightarrow> if ds \<noteq> [] \<and> c = CHR ''%'' then Some ds else None)"

fun match_percent :: "string \<Rightarrow> string option" where
  \<comment> \<open>group 1 of the leftmost match of \<open>/(\d+)%/\<close>\<close>
  "match_percent [] = None"
| "match_percent (c # cs) =
     (case match_here (c # cs) of
        Some ds \<Rightarrow> Some ds
      | None \<Rightarrow> match_percent cs)"

definition parseInt :: "string \<Rightarrow> nat" where
  \<comment> \<open>of a string of decimal digits (exact: the rounding of numbers above \<open>2^53\<close> is left out)\<close>
  "parseInt ds = foldl (\<lambda>n c. 10 * n + (of_char c - 48)) 0 ds"

definition updateChart :: "monitoring \<Rightarrow> string \<Rightarrow> gpu_info \<Rightarrow> error + monitoring" where
  \<comment> \<open>\<open>shift\<close> removes the first element, and nothing from an empty array, as \<open>tl\<close> does\<close>
  "updateChart m now gpuData =
     (case gpuChart m of
        None \<Rightarrow> Inr m
      | Some c \<Rightarrow>
          (case gpuData of
             NoGpuInfo \<Rightarrow> Inr m
           | NoSecondParagraph \<Rightarrow> Inl TypeError
           | SecondParagraph textContent \<Rightarrow>
               (let v = (case match_percent textContent of Some ds \<Rightarrow> parseInt ds | None \<Rightarrow> 0);
                    pushed = \<lparr> labels = labels c @ [now], chart_data = chart_data c @ [v] \<rparr>
                in Inr (m\<lparr>gpuChart := Some
                          (if length (labels pushed) > 20
                           then \<lparr> labels = tl (labels pushed), chart_data = tl (chart_data pushed) \<rparr>
                           else pushed)\<rparr>))))"

text \<open>The states of the chart the dashboard can reach: it starts without a chart, and
  only initChart and updateChart touch it (an updateChart that throws changes nothing).\<close>

inductive reachable :: "monitoring \<Rightarrow> bool" where
  start: "reachable initial_monitoring"
| init: "reachable m \<Longrightarrow> reachable (initChart has_canvas m)"
| update: "reachable m \<Longrightarrow> updateChart m now gpuData = Inr m' \<Longrightarrow> reachable m'"

definition chart_bounded :: "monitoring \<Rightarrow> bool" where
  \<comment> \<open>the invariant of the chart: as many labels as values, and no more than 20\<close>
  "chart_bounded m =
     (case gpuChart m of
        None \<Rightarrow> True
      | Some c \<Rightarrow> length (labels c) = length (chart_data c) \<and> length (labels c) \<le> 20)"

section \<open>The timers of a visit to the page\<close>

text \<open>
  The callback of startAutoRefresh, given which elements the document has, the chart, the
  time and what updateChart finds: loadGPUStatus is called and not awaited, updateChart
  runs, and loadSystemInfo is called unless updateChart threw (the TypeError then leaves
  the callback).
\<close>

definition monitoring_refresh ::
  "(string \<Rightarrow> bool) \<Rightarrow> monitoring \<Rightarrow> string \<Rightarrow> gpu_info \<Rightarrow> effect list \<times> (error + monitoring)" where
  "monitoring_refresh has_element m now gpuData =
     (if has_element ''gpu-status'' then
        (case updateChart m now gpuData of
           Inl e \<Rightarrow> ([Call ''monitoring.loadGPUStatus''], Inl e)
         | Inr m' \<Rightarrow>
             ([Call ''monitoring.loadGPUStatus'', Call ''monitoring.loadSystemInfo''], Inr m'))
      else ([], Inr m))"

text \<open>The functions that run when the page is loaded and when a section is visited, as
  the calls they make; the two that register a timer are written out. Each call is taken
  to return: the methods called catch what their requests throw, and initChart returns
  as above (the Chart constructor is the library's).\<close>

definition evaluation_init :: "effect list" where
  "evaluation_init =
     [Call ''evaluation.initTabs'', Call ''evaluation.initForms'',
      Call ''evaluation.initEventListeners''] @
     startProgressPolling"

definition evaluation_loadData :: "effect list" where
  "evaluation_loadData =
     [Call ''evaluation.populateModelSelects'', Call ''evaluation.loadTaskProgress'']"

definition monitoring_loadData :: "effect list" where
  "monitoring_loadData =
     [Call ''monitoring.loadGPUStatus'', Call ''monitoring.loadNvidiaSMI'',
      Call ''monitoring.loadSystemInfo'', Call ''monitoring.initChart''] @
     startAutoRefresh"

definition loadSectionData :: "string \<Rightarrow> effect list" where
  \<comment> \<open>the switch of navigation.loadSectionData\<close>
  "loadSectionData section_name =
     (if section_name = ''dashboard'' then [Call ''dashboard.loadData'']
      else if section_name = ''models'' then [Call ''models.loadData'']
      else if section_name = ''datasets'' then [Call ''datasets.loadData'']
      else if section_name = ''evaluation'' then evaluation_loadData
      else if section_name = ''records'' then [Call ''records.loadData'']
      else if section_name = ''monitoring'' then monitoring_loadData
      else [])"

definition initApp :: "effect list" where
  "initApp =
     [Call ''navigation.init'', Call ''dashboard.loadData'', Call ''models.loadData'',
      Call ''datasets.loadData''] @
     evaluation_init @
     [Call ''records.loadData''] @
     monitoring_loadData @
     showNotification [Lit msg_init_done] ''success''"

text \<open>
  What happens to the page: it is loaded (the listener of \<open>DOMContentLoaded\<close> calls
  initApp), or a navigation item is clicked (its listener calls loadSectionData with the
  section of the item). Each happens at a time, in milliseconds.
\<close>

datatype page_event = DOMContentLoaded | NavClick string

definition handle :: "page_event \<Rightarrow> effect list" where
  "handle ev =
     (case ev of
        DOMContentLoaded \<Rightarrow> initApp
      | NavClick section_name \<Rightarrow> loadSectionData section_name)"

text \<open>
  The timers of the page: \<open>setInterval\<close> adds one, and nothing in the source removes one
  (there is no \<open>clearInterval\<close>). A timer registered at the time \<open>since\<close> with the delay
  \<open>d\<close> runs its callback for the \<open>k\<close>-th time at \<open>since + k * d\<close>.
\<close>

record timer =
  timer_callback_of :: timer_callback
  timer_delay :: nat
  timer_since :: nat

definition registered :: "nat \<Rightarrow> effect list \<Rightarrow> timer list" where
  "registered now es =
     concat (map (\<lambda>e. case e of
                         SetInterval cb d \<Rightarrow>
                           [\<lparr> timer_callback_of = cb, timer_delay = d, timer_since = now \<rparr>]
                       | _ \<Rightarrow> []) es)"

definition dispatch :: "timer list \<Rightarrow> nat \<times> page_event \<Rightarrow> timer list" where
  "dispatch timers timed = timers @ registered (fst timed) (handle (snd timed))"

definition run_page :: "(nat \<times> page_event) list \<Rightarrow> timer list" where
  "run_page events = foldl dispatch [] events"

definition firing :: "timer \<Rightarrow> nat \<Rightarrow> nat" where
  "firing tm k = timer_since tm + k * timer_delay tm"

definition timers_of :: "timer_callback \<Rightarrow> timer list \<Rightarrow> timer list" where
  "timers_of cb timers = filter (\<lambda>tm. timer_callback_of tm = cb) timers"

section \<open>Properties\<close>

lemmas api_defs =
  apiRequest_def api_issue_def api_settle_def request_failed_def make_request_def
  post_opts_def get_opts_def showNotification_def

subsection \<open>Submitting a batch without a model\<close>

text \<open>
  Claim C1. When no model checkbox is checked, submitBatchEvaluation shows the warning
  that asks for at least one model and returns: that notification is all it does, so no
  POST request to \<open>/api/evaluation/batch\<close> is issued, whatever the other inputs are and
  whatever the server would have answered.
\<close>

theorem batch_without_models_posts_nothing:
  assumes "selectedModels f = []"
  shows "submitBatchEvaluation f res = [Notify [Lit msg_select_a_model] ''warning''] \<and>
         posts (submitBatchEvaluation f res) = []"
  using assms by (simp add: submitBatchEvaluation_def showNotification_def posts_def)

theorem batch_without_models_posts_nothing_witness:
  "selectedModels \<lparr> selectedModels = [], batch_dataset_input = ''ds1'',
                     task_name_input = ''nightly'', parallel_execution = ''true'' \<rparr> = [] \<and>
   posts (submitBatchEvaluation
      \<lparr> selectedModels = [], batch_dataset_input = ''ds1'', task_name_input = ''nightly'',
        parallel_execution = ''true'' \<rparr>
      (Json (JObj [(''success'', JBool True)]))) = []"
  using batch_without_models_posts_nothing
    [of "\<lparr> selectedModels = [], batch_dataset_input = ''ds1'', task_name_input = ''nightly'',
          parallel_execution = ''true'' \<rparr>" "Json (JObj [(''success'', JBool True)])"]
  by (simp add: posts_def)

subsection \<open>Promotion to the excellent records\<close>

text \<open>
  Claim C2. The button that promotes a record is rendered in the row of a record exactly
  when its status is \<open>'completed'\<close>, and it promotes that record; loadRecords renders
  these rows. When addToExcellent is called and the answer's \<open>success\<close> is false (or
  falsy), the client has issued the request, shows the failure notification and does not
  reload the records. Against the Record Store of the specification, promoting a Record
  whose status is not \<open>completed\<close> fails with InvalidState, and the client that receives
  the answer reports the failure.
\<close>

theorem promotion_only_of_completed:
  "(ExcellentButton (rec_id r) \<in> set (row_buttons (render_record_row r)) \<longleftrightarrow>
      status r = ''completed'') \<and>
   (ExcellentButton i \<in> set (row_buttons (render_record_row r)) \<longrightarrow>
      i = rec_id r \<and> status r = ''completed'') \<and>
   (rs \<noteq> [] \<longrightarrow>
      loadRecords page limit (Json (Some rs)) =
        [ShowLoading True, ConsoleLog,
         Fetch (make_request [Lit ''/api/records?page='', Val (JNum (of_nat page)),
                              Lit ''&limit='', Val (JNum (of_nat limit))] get_opts),
         RenderRecords (Rows (map render_record_row rs)), ShowLoading False]) \<and>
   (get_prop response ''success'' = Inr success \<and> \<not> truthy success \<longrightarrow>
      addToExcellent i reason (Json response) =
        [Prompt msg_prompt_reason, ConsoleLog,
         Fetch (make_request (excellent_path i) (post_opts (excellent_body reason))),
         Notify [Lit msg_add_to_excellent_failed] ''error'']) \<and>
   (find (\<lambda>x. rec_id x = i) (store_records st) = Some r' \<and> status r' \<noteq> ''completed'' \<longrightarrow>
      promote st i reason ''general'' = Inl InvalidState \<and>
      addToExcellent i reason (Json (promote_response (promote st i reason ''general''))) =
        [Prompt msg_prompt_reason, ConsoleLog,
         Fetch (make_request (excellent_path i) (post_opts (excellent_body reason))),
         Notify [Lit msg_add_to_excellent_failed] ''error''])"
  by (auto simp add: render_record_row_def loadRecords_def addToExcellent_def promote_def
        promote_response_def apiRequest_def api_issue_def api_settle_def showNotification_def)

theorem promotion_only_of_completed_witness:
  "ExcellentButton 7 \<in> set (row_buttons (render_record_row
      \<lparr> rec_id = 7, model_name = ''a'', dataset_name = ''ds1'', score = Some (9 / 10),
        model_type = ''causal-lm'', status = ''completed'', execution_time = Some 12 \<rparr>)) \<and>
   ExcellentButton 8 \<notin> set (row_buttons (render_record_row
      \<lparr> rec_id = 8, model_name = ''b'', dataset_name = ''ds1'', score = None,
        model_type = ''causal-lm'', status = ''failed'', execution_time = None \<rparr>)) \<and>
   loadRecords 1 50 (Json (Some
      [\<lparr> rec_id = 7, model_name = ''a'', dataset_name = ''ds1'', score = Some (9 / 10),
         model_type = ''causal-lm'', status = ''completed'', execution_time = Some 12 \<rparr>,
       \<lparr> rec_id = 8, model_name = ''b'', dataset_name = ''ds1'', score = None,
         model_type = ''causal-lm'', status = ''failed'', execution_time = None \<rparr>])) =
     [ShowLoading True, ConsoleLog,
      Fetch (make_request [Lit ''/api/records?page='', Val (JNum 1),
                           Lit ''&limit='', Val (JNum 50)] get_opts),
      RenderRecords (Rows
        [render_record_row
           \<lparr> rec_id = 7, model_name = ''a'', dataset_name = ''ds1'', score = Some (9 / 10),
             model_type = ''causal-lm'', status = ''completed'', execution_time = Some 12 \<rparr>,
         render_record_row
           \<lparr> rec_id = 8, model_name = ''b'', dataset_name = ''ds1'', score = None,
             model_type = ''causal-lm'', status = ''failed'', execution_time = None \<rparr>]),
      ShowLoading False] \<and>
   promote
      \<lparr> store_records =
          [\<lparr> rec_id = 8, model_name = ''b'', dataset_name = ''ds1'', score = None,
             model_type = ''causal-lm'', status = ''failed'', execution_time = None \<rparr>],
        store_excellent = [] \<rparr> 8 (Some ''best so far'') ''general'' = Inl InvalidState \<and>
   addToExcellent 8 (Some ''best so far'')
      (Json (JObj [(''success'', JBool False), (''detail'', JStr ''InvalidState'')])) =
     [Prompt msg_prompt_reason, ConsoleLog,
      Fetch (make_request (excellent_path 8) (post_opts (excellent_body (Some ''best so far'')))),
      Notify [Lit msg_add_to_excellent_failed] ''error'']"
  using
    promotion_only_of_completed
      [where r = "\<lparr> rec_id = 7, model_name = ''a'', dataset_name = ''ds1'', score = Some (9 / 10),
                    model_type = ''causal-lm'', status = ''completed'', execution_time = Some 12 \<rparr>"
         and i = 8 and reason = "Some ''best so far''" and page = 1 and limit = 50
         and rs = "[\<lparr> rec_id = 7, model_name = ''a'', dataset_name = ''ds1'', score = Some (9 / 10),
                       model_type = ''causal-lm'', status = ''completed'', execution_time = Some 12 \<rparr>,
                    \<lparr> rec_id = 8, model_name = ''b'', dataset_name = ''ds1'', score = None,
                       model_type = ''causal-lm'', status = ''failed'', execution_time = None \<rparr>]"
         and response = "JObj [(''success'', JBool False), (''detail'', JStr ''InvalidState'')]"
         and success = "JBool False"
         and st = "\<lparr> store_records =
                      [\<lparr> rec_id = 8, model_name = ''b'', dataset_name = ''ds1'', score = None,
                         model_type = ''causal-lm'', status = ''failed'', execution_time = None \<rparr>],
                    store_excellent = [] \<rparr>"
         and r' = "\<lparr> rec_id = 8, model_name = ''b'', dataset_name = ''ds1'', score = None,
                     model_type = ''causal-lm'', status = ''failed'', execution_time = None \<rparr>"]
    promotion_only_of_completed
      [where r = "\<lparr> rec_id = 8, model_name = ''b'', dataset_name = ''ds1'', score = None,
                    model_type = ''causal-lm'', status = ''failed'', execution_time = None \<rparr>"
         and i = 8 and rs = "[]"]
  by simp

subsection \<open>The bodies of the two submissions\<close>

text \<open>
  Claim C3, as amended. A single submission with a non-empty model path and dataset name
  whose config text is empty or is parsed by \<open>JSON.parse\<close> issues exactly one POST
  request, to \<open>/api/evaluation/single\<close>, with the body
  \<open>{model_path, dataset_name, config}\<close>, where \<open>config\<close> is \<open>null\<close> for an empty text and
  the parsed value otherwise. A batch submission with at least one checked model and a
  non-empty dataset name issues exactly one POST request, to \<open>/api/evaluation/batch\<close>,
  with the body \<open>{model_paths, dataset_name, task_name, parallel}\<close>.
\<close>

theorem submissions_post_exact_body:
  "(modelPath f \<noteq> [] \<and> dataset_input f \<noteq> [] \<and>
    (if trim (config_json f) = [] then config = JNull
     else JSON_parse (trim (config_json f)) = Some config) \<longrightarrow>
    posts (submitSingleEvaluation trim JSON_parse f res) =
      [\<lparr> req_url = [Lit API_BASE, Lit ''/api/evaluation/single''],
          req_method = ''POST'',
          req_content_type = ''application/json'',
          req_body = Some (JObj [(''model_path'', JStr (modelPath f)),
                                 (''dataset_name'', JStr (dataset_input f)),
                                 (''config'', config)]) \<rparr>]) \<and>
   (selectedModels g \<noteq> [] \<and> batch_dataset_input g \<noteq> [] \<longrightarrow>
    posts (submitBatchEvaluation g res') =
      [\<lparr> req_url = [Lit API_BASE, Lit ''/api/evaluation/batch''],
          req_method = ''POST'',
          req_content_type = ''application/json'',
          req_body = Some (JObj [(''model_paths'', JArr (map JStr (selectedModels g))),
                                 (''dataset_name'', JStr (batch_dataset_input g)),
                                 (''task_name'', JStr (task_name_input g)),
                                 (''parallel'', JBool (parallel_execution g = ''true''))]) \<rparr>])"
proof (intro conjI impI)
  assume h: "modelPath f \<noteq> [] \<and> dataset_input f \<noteq> [] \<and>
    (if trim (config_json f) = [] then config = JNull
     else JSON_parse (trim (config_json f)) = Some config)"
  show "posts (submitSingleEvaluation trim JSON_parse f res) =
      [\<lparr> req_url = [Lit API_BASE, Lit ''/api/evaluation/single''],
          req_method = ''POST'',
          req_content_type = ''application/json'',
          req_body = Some (JObj [(''model_path'', JStr (modelPath f)),
                                 (''dataset_name'', JStr (dataset_input f)),
                                 (''config'', config)]) \<rparr>]"
    using h
    by (cases res)
       (auto simp add: submitSingleEvaluation_def Let_def posts_def api_defs single_body_def
          split: if_splits sum.splits)
next
  assume h: "selectedModels g \<noteq> [] \<and> batch_dataset_input g \<noteq> []"
  show "posts (submitBatchEvaluation g res') =
      [\<lparr> req_url = [Lit API_BASE, Lit ''/api/evaluation/batch''],
          req_method = ''POST'',
          req_content_type = ''application/json'',
          req_body = Some (JObj [(''model_paths'', JArr (map JStr (selectedModels g))),
                                 (''dataset_name'', JStr (batch_dataset_input g)),
                                 (''task_name'', JStr (task_name_input g)),
                                 (''parallel'', JBool (parallel_execution g = ''true''))]) \<rparr>]"
    using h
    by (cases res')
       (auto simp add: submitBatchEvaluation_def Let_def posts_def api_defs batch_body_def
          split: if_splits sum.splits)
qed

theorem submissions_post_exact_body_witness:
  "posts (submitSingleEvaluation id (map_of [(''{}'', JObj [])])
      \<lparr> formdata_model_select = Some ''/models/a'', model_select_value = ''/models/a'',
        dataset_input = ''ds1'', config_json = ''{}'' \<rparr>
      (Json (JObj [(''success'', JBool True)]))) =
     [\<lparr> req_url = [Lit API_BASE, Lit ''/api/evaluation/single''],
         req_method = ''POST'',
         req_content_type = ''application/json'',
         req_body = Some (JObj [(''model_path'', JStr ''/models/a''),
                                (''dataset_name'', JStr ''ds1''),
                                (''config'', JObj [])]) \<rparr>] \<and>
   posts (submitBatchEvaluation
      \<lparr> selectedModels = [''/models/a'', ''/models/b''], batch_dataset_input = ''ds1'',
        task_name_input = ''nightly'', parallel_execution = ''false'' \<rparr>
      (Rejected ''Failed to fetch'')) =
     [\<lparr> req_url = [Lit API_BASE, Lit ''/api/evaluation/batch''],
         req_method = ''POST'',
         req_content_type = ''application/json'',
         req_body = Some (JObj [(''model_paths'', JArr [JStr ''/models/a'', JStr ''/models/b'']),
                                (''dataset_name'', JStr ''ds1''),
                                (''task_name'', JStr ''nightly''),
                                (''parallel'', JBool False)]) \<rparr>]"
  using
    submissions_post_exact_body
      [where f = "\<lparr> formdata_model_select = Some ''/models/a'', model_select_value = ''/models/a'',
                    dataset_input = ''ds1'', config_json = ''{}'' \<rparr>"
         and trim = id and JSON_parse = "map_of [(''{}'', JObj [])]" and config = "JObj []"
         and res = "Json (JObj [(''success'', JBool True)])"
         and g = "\<lparr> selectedModels = [''/models/a'', ''/models/b''], batch_dataset_input = ''ds1'',
                    task_name_input = ''nightly'', parallel_execution = ''false'' \<rparr>"
         and res' = "Rejected ''Failed to fetch''"]
  by (simp add: modelPath_def)

text \<open>
  The claim as first stated fails: a non-empty model path and dataset name with the
  config text \<open>{\<close>, on which \<open>JSON.parse\<close> throws, issue no request at all.
\<close>

theorem single_post_counterexample:
  "modelPath \<lparr> formdata_model_select = Some ''/models/a'', model_select_value = ''/models/a'',
        dataset_input = ''ds1'', config_json = ''{'' \<rparr> \<noteq> [] \<and>
   dataset_input \<lparr> formdata_model_select = Some ''/models/a'', model_select_value = ''/models/a'',
        dataset_input = ''ds1'', config_json = ''{'' \<rparr> \<noteq> [] \<and>
   posts (submitSingleEvaluation id (map_of [(''{}'', JObj [])])
      \<lparr> formdata_model_select = Some ''/models/a'', model_select_value = ''/models/a'',
        dataset_input = ''ds1'', config_json = ''{'' \<rparr>
      (Json (JObj [(''success'', JBool True)]))) = []"
  by (simp add: submitSingleEvaluation_def modelPath_def posts_def showNotification_def)

subsection \<open>Reading the answer to a submission\<close>



subsection \<open>Rejecting a single submission before any request\<close>

text \<open>
  Claim C5. When the model path or the dataset name is empty, or the config text (the
  trimmed value of the text area, \<open>configText\<close> in the source) is not empty and
  \<open>JSON.parse\<close> throws on it, submitSingleEvaluation only shows a notification (the
  warning for a missing field, the error for a malformed config) and issues no POST
  request.
\<close>

theorem single_invalid_posts_nothing:
  assumes "modelPath f = [] \<or> dataset_input f = [] \<or>
           (trim (config_json f) \<noteq> [] \<and> JSON_parse (trim (config_json f)) = None)"
  shows "submitSingleEvaluation trim JSON_parse f res =
           (if modelPath f = [] \<or> dataset_input f = []
            then [Notify [Lit msg_fill_model_and_dataset] ''warning'']
            else [Notify [Lit msg_config_json_error] ''error'']) \<and>
         posts (submitSingleEvaluation trim JSON_parse f res) = []"
  using assms
  by (auto simp add: submitSingleEvaluation_def showNotification_def posts_def Let_def)

theorem single_invalid_posts_nothing_witness:
  "posts (submitSingleEvaluation id (map_of [(''{}'', JObj [])])
      \<lparr> formdata_model_select = None, model_select_value = [], dataset_input = ''ds1'',
        config_json = ''{}'' \<rparr> (Json (JObj [(''success'', JBool True)]))) = [] \<and>
   posts (submitSingleEvaluation id (map_of [(''{}'', JObj [])])
      \<lparr> formdata_model_select = Some ''/models/a'', model_select_value = ''/models/a'',
        dataset_input = [], config_json = [] \<rparr> (Json (JObj [(''success'', JBool True)]))) = [] \<and>
   submitSingleEvaluation id (map_of [(''{}'', JObj [])])
      \<lparr> formdata_model_select = Some ''/models/a'', model_select_value = ''/models/a'',
        dataset_input = ''ds1'', config_json = ''{'' \<rparr> (Json (JObj [(''success'', JBool True)])) =
     [Notify [Lit msg_config_json_error] ''error'']"
  using
    single_invalid_posts_nothing
      [of "\<lparr> formdata_model_select = None, model_select_value = [], dataset_input = ''ds1'',
             config_json = ''{}'' \<rparr>" id "map_of [(''{}'', JObj [])]"
          "Json (JObj [(''success'', JBool True)])"]
    single_invalid_posts_nothing
      [of "\<lparr> formdata_model_select = Some ''/models/a'', model_select_value = ''/models/a'',
             dataset_input = [], config_json = [] \<rparr>" id "map_of [(''{}'', JObj [])]"
          "Json (JObj [(''success'', JBool True)])"]
    single_invalid_posts_nothing
      [of "\<lparr> formdata_model_select = Some ''/models/a'', model_select_value = ''/models/a'',
             dataset_input = ''ds1'', config_json = ''{'' \<rparr>" id "map_of [(''{}'', JObj [])]"
          "Json (JObj [(''success'', JBool True)])"]
  by (simp add: modelPath_def posts_def)

subsection \<open>Conversions that cannot throw\<close>

lemma to_string_throws_or: "to_string_throws (js_or a (JStr s)) = to_string_throws a"
  by (cases a) (simp_all add: js_or_def)


subsection \<open>The polling timers\<close>

lemma run_page_from:
  "foldl dispatch timers events =
     timers @ concat (map (\<lambda>timed. registered (fst timed) (handle (snd timed))) events)"
  by (induction events arbitrary: timers) (simp_all add: dispatch_def)

lemma registered_initApp:
  "registered t initApp =
     [\<lparr> timer_callback_of = ProgressPoll, timer_delay = 5000, timer_since = t \<rparr>,
      \<lparr> timer_callback_of = MonitoringRefresh, timer_delay = 10000, timer_since = t \<rparr>]"
  by (simp add: registered_def initApp_def evaluation_init_def monitoring_loadData_def
        startProgressPolling_def startAutoRefresh_def showNotification_def)

lemma registered_loadSectionData:
  "registered t (loadSectionData s) =
     (if s = ''monitoring''
      then [\<lparr> timer_callback_of = MonitoringRefresh, timer_delay = 10000, timer_since = t \<rparr>]
      else [])"
  by (simp add: registered_def loadSectionData_def evaluation_loadData_def
        monitoring_loadData_def startAutoRefresh_def)

lemma timers_of_visits:
  "timers_of cb (concat (map (\<lambda>(t, s). registered t (loadSectionData s)) visits)) =
     (if cb = MonitoringRefresh
      then map (\<lambda>(t, s). \<lparr> timer_callback_of = MonitoringRefresh, timer_delay = 10000,
                            timer_since = t \<rparr>)
             (filter (\<lambda>(t, s). s = ''monitoring'') visits)
      else [])"
  by (induction visits)
     (auto simp add: timers_of_def registered_loadSectionData)

text \<open>
  Claim C6. The task progress is polled by one timer of 5000 ms, however the page is
  used: startProgressPolling is called once, by evaluation.init. The monitoring metrics
  are not refreshed on one fixed interval of 10000 ms: monitoring.loadData calls
  startAutoRefresh when the page is loaded and again at every visit of the monitoring
  section, and no timer is ever cleared. After the page load at 0 ms and one visit at
  3000 ms, two timers of 10000 ms refresh the metrics, at 10000, 13000, 20000 and 23000
  ms and so on; after any visits there is one such timer for the page load and one more
  for each visit of the monitoring section. The Chart constructor is the library's:
  initChart is taken to return, as it does at once on a page without the canvas.
\<close>

theorem monitoring_timers_accumulate:
  "timers_of MonitoringRefresh
     (run_page [(0, DOMContentLoaded), (3000, NavClick ''monitoring'')]) =
     [\<lparr> timer_callback_of = MonitoringRefresh, timer_delay = 10000, timer_since = 0 \<rparr>,
      \<lparr> timer_callback_of = MonitoringRefresh, timer_delay = 10000, timer_since = 3000 \<rparr>] \<and>
   map (\<lambda>tm. map (firing tm) [1, 2])
     (timers_of MonitoringRefresh
        (run_page [(0, DOMContentLoaded), (3000, NavClick ''monitoring'')])) =
     [[10000, 20000], [13000, 23000]] \<and>
   timers_of ProgressPoll
     (run_page [(0, DOMContentLoaded), (3000, NavClick ''monitoring'')]) =
     [\<lparr> timer_callback_of = ProgressPoll, timer_delay = 5000, timer_since = 0 \<rparr>] \<and>
   timers_of MonitoringRefresh
     (run_page ((t0, DOMContentLoaded) # map (\<lambda>(t, s). (t, NavClick s)) visits)) =
     \<lparr> timer_callback_of = MonitoringRefresh, timer_delay = 10000, timer_since = t0 \<rparr> #
     map (\<lambda>(t, s). \<lparr> timer_callback_of = MonitoringRefresh, timer_delay = 10000,
                       timer_since = t \<rparr>)
       (filter (\<lambda>(t, s). s = ''monitoring'') visits) \<and>
   timers_of ProgressPoll
     (run_page ((t0, DOMContentLoaded) # map (\<lambda>(t, s). (t, NavClick s)) visits)) =
     [\<lparr> timer_callback_of = ProgressPoll, timer_delay = 5000, timer_since = t0 \<rparr>]"
proof -
  have general:
    "run_page ((t, DOMContentLoaded) # map (\<lambda>(t, s). (t, NavClick s)) vs) =
       registered t initApp @
       concat (map (\<lambda>(t, s). registered t (loadSectionData s)) vs)" for t vs
    by (simp add: run_page_def run_page_from handle_def dispatch_def comp_def split_def)
  have filter_app: "timers_of cb (xs @ ys) = timers_of cb xs @ timers_of cb ys" for cb xs ys
    by (simp add: timers_of_def)
  have init_m: "timers_of MonitoringRefresh (registered t initApp) =
      [\<lparr> timer_callback_of = MonitoringRefresh, timer_delay = 10000, timer_since = t \<rparr>]" for t
    by (simp add: registered_initApp timers_of_def)
  have init_p: "timers_of ProgressPoll (registered t initApp) =
      [\<lparr> timer_callback_of = ProgressPoll, timer_delay = 5000, timer_since = t \<rparr>]" for t
    by (simp add: registered_initApp timers_of_def)
  have m: "timers_of MonitoringRefresh
             (run_page ((t, DOMContentLoaded) # map (\<lambda>(t, s). (t, NavClick s)) vs)) =
           \<lparr> timer_callback_of = MonitoringRefresh, timer_delay = 10000, timer_since = t \<rparr> #
           map (\<lambda>(t, s). \<lparr> timer_callback_of = MonitoringRefresh, timer_delay = 10000,
                             timer_since = t \<rparr>)
             (filter (\<lambda>(t, s). s = ''monitoring'') vs)" for t vs
    by (simp add: general filter_app init_m timers_of_visits)
  have p: "timers_of ProgressPoll
             (run_page ((t, DOMContentLoaded) # map (\<lambda>(t, s). (t, NavClick s)) vs)) =
           [\<lparr> timer_callback_of = ProgressPoll, timer_delay = 5000, timer_since = t \<rparr>]" for t vs
    by (simp add: general filter_app init_p timers_of_visits)
  have c_m: "timers_of MonitoringRefresh
               (run_page [(0, DOMContentLoaded), (3000, NavClick ''monitoring'')]) =
      [\<lparr> timer_callback_of = MonitoringRefresh, timer_delay = 10000, timer_since = 0 \<rparr>,
       \<lparr> timer_callback_of = MonitoringRefresh, timer_delay = 10000, timer_since = 3000 \<rparr>]"
    using m [of 0 "[(3000, ''monitoring'')]"] by simp
  have c_p: "timers_of ProgressPoll
               (run_page [(0, DOMContentLoaded), (3000, NavClick ''monitoring'')]) =
      [\<lparr> timer_callback_of = ProgressPoll, timer_delay = 5000, timer_since = 0 \<rparr>]"
    using p [of 0 "[(3000, ''monitoring'')]"] by simp
  show ?thesis
    by (simp add: c_m c_p m p firing_def)
qed

subsection \<open>The GPU usage of the dashboard\<close>









subsection \<open>The formatters at zero\<close>

text \<open>
  Claim C8. The display formatters test their argument for truthiness, so zero is shown
  as the placeholder for a missing value and not as a formatted zero:
  formatExecutionTime(0) and formatMemory(0) are \<open>'-'\<close>, the same as for a missing
  value, and formatDate of \<open>null\<close> and of the empty string is \<open>'-'\<close>.
\<close>

theorem formatters_zero_is_placeholder:
  "formatExecutionTime (Some 0) = [Lit ''-''] \<and>
   formatMemory (Some 0) = [Lit ''-''] \<and>
   formatDate JNull = [Lit ''-''] \<and>
   formatDate (JStr []) = [Lit ''-''] \<and>
   formatExecutionTime (Some 0) = formatExecutionTime None \<and>
   formatMemory (Some 0) = formatMemory None"
  by (simp add: formatExecutionTime_def formatMemory_def formatDate_def)

subsection \<open>The buffer of the GPU chart\<close>

lemma initChart_bounded: "chart_bounded m \<Longrightarrow> chart_bounded (initChart has_canvas m)"
  by (simp add: initChart_def chart_bounded_def)

lemma updateChart_bounded:
  assumes "chart_bounded m" and "updateChart m now gpuData = Inr m'"
  shows "chart_bounded m'"
proof (cases "gpuChart m")
  case None
  with assms show ?thesis by (simp add: updateChart_def)
next
  case (Some c)
  with assms(1) have inv: "length (labels c) = length (chart_data c)" "length (labels c) \<le> 20"
    by (simp_all add: chart_bounded_def)
  show ?thesis
  proof (cases gpuData)
    case NoGpuInfo
    with Some assms show ?thesis by (simp add: updateChart_def)
  next
    case NoSecondParagraph
    with Some assms show ?thesis by (simp add: updateChart_def)
  next
    case (SecondParagraph t)
    with Some assms(2) inv show ?thesis
      by (auto simp add: updateChart_def chart_bounded_def Let_def)
  qed
qed

lemma reachable_bounded: "reachable m \<Longrightarrow> chart_bounded m"
proof (induction rule: reachable.induct)
  case start
  show ?case by (simp add: chart_bounded_def initial_monitoring_def)
next
  case (init m has_canvas)
  then show ?case by (simp add: initChart_bounded)
next
  case (update m now gpuData m')
  then show ?case by (simp add: updateChart_bounded)
qed

text \<open>
  Claim C9. In every state the dashboard can reach, after a call of updateChart (one
  that returns, or one that throws and leaves the chart as it was) the labels and the
  values of the chart are equally many, and at most 20. When the chart holds 20 points
  and a new one is read, the oldest label and value are shifted out and the new label
  is appended.
\<close>

theorem chart_buffer_bounded:
  assumes "reachable m"
    and "m' = (case updateChart m now gpuData of Inr updated \<Rightarrow> updated | Inl e \<Rightarrow> m)"
    and "gpuChart m' = Some c'"
  shows "length (labels c') = length (chart_data c') \<and> length (labels c') \<le> 20 \<and>
         (\<forall>c t. gpuChart m = Some c \<and> gpuData = SecondParagraph t \<and> length (labels c) = 20 \<longrightarrow>
                labels c' = tl (labels c) @ [now] \<and>
                butlast (chart_data c') = tl (chart_data c))"
proof -
  have before: "chart_bounded m"
    using assms(1) by (rule reachable_bounded)
  have "chart_bounded m'"
  proof (cases "updateChart m now gpuData")
    case (Inl e)
    with assms(2) before show ?thesis by simp
  next
    case (Inr updated)
    with assms(2) before show ?thesis by (simp add: updateChart_bounded)
  qed
  with assms(3) have bounded: "length (labels c') = length (chart_data c') \<and> length (labels c') \<le> 20"
    by (simp add: chart_bounded_def)
  have shifted: "labels c' = tl (labels c) @ [now] \<and> butlast (chart_data c') = tl (chart_data c)"
    if h: "gpuChart m = Some c \<and> gpuData = SecondParagraph t \<and> length (labels c) = 20" for c t
  proof -
    from before h have "length (chart_data c) = 20"
      by (simp add: chart_bounded_def)
    with h assms(2,3) show ?thesis
      by (cases "labels c"; cases "chart_data c") (auto simp add: updateChart_def Let_def)
  qed
  from bounded shifted show ?thesis by blast
qed

lemma reachable_filled:
  "n \<le> 20 \<Longrightarrow> reachable \<lparr> gpuChart = Some \<lparr> labels = replicate n now, chart_data = replicate n 0 \<rparr> \<rparr>"
proof (induction n)
  case 0
  have "reachable (initChart True initial_monitoring)"
    by (rule reachable.init) (rule reachable.start)
  then show ?case by (simp add: initChart_def initial_monitoring_def)
next
  case (Suc n)
  then have r: "reachable \<lparr> gpuChart = Some \<lparr> labels = replicate n now, chart_data = replicate n 0 \<rparr> \<rparr>"
    by simp
  have "updateChart \<lparr> gpuChart = Some \<lparr> labels = replicate n now, chart_data = replicate n 0 \<rparr> \<rparr>
          now (SecondParagraph []) =
        Inr \<lparr> gpuChart = Some \<lparr> labels = replicate (Suc n) now, chart_data = replicate (Suc n) 0 \<rparr> \<rparr>"
    using Suc.prems by (simp add: updateChart_def Let_def replicate_append_same)
  with r show ?case by (rule reachable.update)
qed

theorem chart_buffer_bounded_witness:
  "reachable \<lparr> gpuChart = Some \<lparr> labels = replicate 20 ''12:00:00'', chart_data = replicate 20 0 \<rparr> \<rparr> \<and>
   updateChart \<lparr> gpuChart = Some \<lparr> labels = replicate 20 ''12:00:00'', chart_data = replicate 20 0 \<rparr> \<rparr>
     ''12:03:20'' (SecondParagraph ''GPU: 55%'') =
     Inr \<lparr> gpuChart = Some \<lparr> labels = replicate 19 ''12:00:00'' @ [''12:03:20''],
                                chart_data = replicate 19 0 @ [55] \<rparr> \<rparr> \<and>
   length (labels \<lparr> labels = replicate 19 ''12:00:00'' @ [''12:03:20''],
                    chart_data = replicate 19 0 @ [55] \<rparr>) = 20 \<and>
   length (chart_data \<lparr> labels = replicate 19 ''12:00:00'' @ [''12:03:20''],
                        chart_data = replicate 19 0 @ [55] \<rparr>) = 20"
proof -
  let ?m = "\<lparr> gpuChart = Some \<lparr> labels = replicate 20 ''12:00:00'', chart_data = replicate 20 0 \<rparr> \<rparr>"
  let ?c' = "\<lparr> labels = replicate 19 ''12:00:00'' @ [''12:03:20''], chart_data = replicate 19 0 @ [55] \<rparr>"
  have r: "reachable ?m"
    by (rule reachable_filled) simp
  have u: "updateChart ?m ''12:03:20'' (SecondParagraph ''GPU: 55%'') = Inr \<lparr> gpuChart = Some ?c' \<rparr>"
    by (simp add: updateChart_def match_here_def is_digit_def parseInt_def Let_def
          numeral_eq_Suc)
  have g: "gpuChart \<lparr> gpuChart = Some ?c' \<rparr> = Some ?c'"
    by simp
  have s: "\<lparr> gpuChart = Some ?c' \<rparr> =
      (case updateChart ?m ''12:03:20'' (SecondParagraph ''GPU: 55%'') of
         Inr updated \<Rightarrow> updated | Inl e \<Rightarrow> ?m)"
    by (simp add: u)
  from chart_buffer_bounded [OF r s g] r u show ?thesis by simp
qed

subsection \<open>The shapes of the models payload\<close>

lemma get_prop_defined: "\<not> nullish v \<Longrightarrow> \<exists>x. get_prop v k = Inr x"
  by (cases v) (simp_all add: nullish_def)

lemma get_prop_nullish: "nullish v \<Longrightarrow> get_prop v k = Inl TypeError"
  by (auto simp add: nullish_def)

lemma to_locale_string_throws_nullish: "nullish v \<Longrightarrow> \<not> to_locale_string_throws v"
  by (auto simp add: nullish_def)

lemma render_model_card_fields:
  assumes "get_prop model ''path'' = Inr p" and "get_prop model ''name'' = Inr n"
    and "get_prop model ''type'' = Inr t" and "get_prop model ''parameters'' = Inr q"
  shows "(\<exists>c. render_model_card sel model = Inr c) \<longleftrightarrow>
           \<not> to_string_throws p \<and> \<not> to_string_throws n \<and> \<not> to_string_throws t \<and>
           \<not> to_locale_string_throws q"
  using assms to_locale_string_throws_nullish [of q]
  by (auto simp add: render_model_card_def to_string_throws_or)

lemma render_model_card_error: "render_model_card sel model = Inl e \<Longrightarrow> e = TypeError"
  by (cases model)
     (auto simp add: render_model_card_def split: sum.splits if_splits)

lemma render_cards_defined:
  "\<forall>m\<in>set ms. \<exists>c. render_model_card sel m = Inr c \<Longrightarrow>
     \<exists>cards. render_cards sel ms = Inr cards \<and> length cards = length ms"
proof (induction ms)
  case Nil
  show ?case by simp
next
  case (Cons m ms)
  then obtain cards where "render_cards sel ms = Inr cards" "length cards = length ms"
    by auto
  moreover obtain c where "render_model_card sel m = Inr c"
    using Cons.prems by auto
  ultimately show ?case by simp
qed

lemma render_cards_thrown:
  "\<exists>m\<in>set ms. \<forall>c. render_model_card sel m \<noteq> Inr c \<Longrightarrow> render_cards sel ms = Inl TypeError"
proof (induction ms)
  case Nil
  then show ?case by simp
next
  case (Cons m ms)
  show ?case
  proof (cases "render_model_card sel m")
    case (Inl e)
    then show ?thesis by (simp add: render_model_card_error)
  next
    case (Inr c)
    with Cons have "render_cards sel ms = Inl TypeError" by auto
    with Inr show ?thesis by simp
  qed
qed

lemma loadModels_rendered:
  assumes "get_prop response ''data'' = Inr d"
    and "render_cards sel (modelsList (js_or d response)) = Inr cards"
  shows "loadModels sel (Json response) =
           [ShowLoading True, ConsoleLog, Fetch (make_request [Lit ''/api/models''] get_opts),
            ConsoleLog, ConsoleLog,
            RenderModels (if cards = [] then NoModelsMessage else Cards cards),
            BindCardClicks, ShowLoading False]"
  using assms
  by (simp add: loadModels_def rawData_def apiRequest_def api_issue_def api_settle_def)

lemma loadModels_caught:
  assumes "get_prop response ''data'' = Inr d"
    and "render_cards sel (modelsList (js_or d response)) = Inl e"
  shows "loadModels sel (Json response) =
           [ShowLoading True, ConsoleLog, Fetch (make_request [Lit ''/api/models''] get_opts),
            ConsoleLog, ConsoleLog, ConsoleError,
            Notify [Lit msg_load_models_failed] ''error'', ShowLoading False]"
  using assms
  by (simp add: loadModels_def rawData_def apiRequest_def api_issue_def api_settle_def
        load_models_failed_def showNotification_def)

text \<open>
  Claim C10, as amended. loadModels takes as raw data \<open>response.data\<close> when that is
  truthy, and the response itself otherwise. When the raw data is an array each of whose
  elements the template can render, it renders one card for each element; when it is
  another object each of whose values the template can render, it renders one card for
  each value; with no element at all it shows the message for no models. When the raw
  data is neither an array nor an object, it shows the message for no models. The
  template can render a model exactly when the model is not \<open>null\<close> or \<open>undefined\<close>, its
  path, name and type can be converted to a string, and \<open>toLocaleString\<close> of its
  parameters does not throw. When the template cannot render some element, its
  TypeError is caught: loadModels renders nothing and reports that loading failed. Every
  run of loadModels ends by hiding the loading state.
\<close>

theorem loadModels_by_shape:
  "(get_prop response ''data'' = Inr d \<and> js_or d response = JArr xs \<and>
    (\<forall>m\<in>set xs. \<exists>c. render_model_card sel m = Inr c) \<longrightarrow>
      (\<exists>cards. render_cards sel xs = Inr cards \<and> length cards = length xs \<and>
         loadModels sel (Json response) =
           [ShowLoading True, ConsoleLog, Fetch (make_request [Lit ''/api/models''] get_opts),
            ConsoleLog, ConsoleLog,
            RenderModels (if xs = [] then NoModelsMessage else Cards cards),
            BindCardClicks, ShowLoading False])) \<and>
   (get_prop response ''data'' = Inr d \<and> js_or d response = JObj kvs \<and>
    (\<forall>m\<in>set (map snd kvs). \<exists>c. render_model_card sel m = Inr c) \<longrightarrow>
      (\<exists>cards. render_cards sel (map snd kvs) = Inr cards \<and> length cards = length kvs \<and>
         loadModels sel (Json response) =
           [ShowLoading True, ConsoleLog, Fetch (make_request [Lit ''/api/models''] get_opts),
            ConsoleLog, ConsoleLog,
            RenderModels (if kvs = [] then NoModelsMessage else Cards cards),
            BindCardClicks, ShowLoading False])) \<and>
   (get_prop response ''data'' = Inr d \<and>
    (\<forall>ys. js_or d response \<noteq> JArr ys) \<and> (\<forall>ps. js_or d response \<noteq> JObj ps) \<longrightarrow>
      loadModels sel (Json response) =
        [ShowLoading True, ConsoleLog, Fetch (make_request [Lit ''/api/models''] get_opts),
         ConsoleLog, ConsoleLog, RenderModels NoModelsMessage,
         BindCardClicks, ShowLoading False]) \<and>
   (get_prop response ''data'' = Inr d \<and>
    (\<exists>m\<in>set (modelsList (js_or d response)). \<forall>c. render_model_card sel m \<noteq> Inr c) \<longrightarrow>
      loadModels sel (Json response) =
        [ShowLoading True, ConsoleLog, Fetch (make_request [Lit ''/api/models''] get_opts),
         ConsoleLog, ConsoleLog, ConsoleError,
         Notify [Lit msg_load_models_failed] ''error'', ShowLoading False]) \<and>
   ((\<exists>c. render_model_card sel model = Inr c) \<longleftrightarrow>
      \<not> nullish model \<and>
      (\<forall>p. get_prop model ''path'' = Inr p \<longrightarrow> \<not> to_string_throws p) \<and>
      (\<forall>n. get_prop model ''name'' = Inr n \<longrightarrow> \<not> to_string_throws n) \<and>
      (\<forall>t. get_prop model ''type'' = Inr t \<longrightarrow> \<not> to_string_throws t) \<and>
      (\<forall>q. get_prop model ''parameters'' = Inr q \<longrightarrow> \<not> to_locale_string_throws q)) \<and>
   last (loadModels sel res) = ShowLoading False"
proof (intro conjI impI)
  assume h: "get_prop response ''data'' = Inr d \<and> js_or d response = JArr xs \<and>
    (\<forall>m\<in>set xs. \<exists>c. render_model_card sel m = Inr c)"
  then obtain cards where c: "render_cards sel xs = Inr cards" "length cards = length xs"
    using render_cards_defined by blast
  have "render_cards sel (modelsList (js_or d response)) = Inr cards"
    using h c by (simp add: modelsList_def)
  with h have "loadModels sel (Json response) =
      [ShowLoading True, ConsoleLog, Fetch (make_request [Lit ''/api/models''] get_opts),
       ConsoleLog, ConsoleLog,
       RenderModels (if cards = [] then NoModelsMessage else Cards cards),
       BindCardClicks, ShowLoading False]"
    by (simp add: loadModels_rendered)
  with c show "\<exists>cards. render_cards sel xs = Inr cards \<and> length cards = length xs \<and>
         loadModels sel (Json response) =
           [ShowLoading True, ConsoleLog, Fetch (make_request [Lit ''/api/models''] get_opts),
            ConsoleLog, ConsoleLog,
            RenderModels (if xs = [] then NoModelsMessage else Cards cards),
            BindCardClicks, ShowLoading False]"
    by auto
next
  assume h: "get_prop response ''data'' = Inr d \<and> js_or d response = JObj kvs \<and>
    (\<forall>m\<in>set (map snd kvs). \<exists>c. render_model_card sel m = Inr c)"
  then obtain cards where c: "render_cards sel (map snd kvs) = Inr cards"
      "length cards = length (map snd kvs)"
    using render_cards_defined by blast
  have "render_cards sel (modelsList (js_or d response)) = Inr cards"
    using h c by (simp add: modelsList_def)
  with h have "loadModels sel (Json response) =
      [ShowLoading True, ConsoleLog, Fetch (make_request [Lit ''/api/models''] get_opts),
       ConsoleLog, ConsoleLog,
       RenderModels (if cards = [] then NoModelsMessage else Cards cards),
       BindCardClicks, ShowLoading False]"
    by (simp add: loadModels_rendered)
  with c show "\<exists>cards. render_cards sel (map snd kvs) = Inr cards \<and> length cards = length kvs \<and>
         loadModels sel (Json response) =
           [ShowLoading True, ConsoleLog, Fetch (make_request [Lit ''/api/models''] get_opts),
            ConsoleLog, ConsoleLog,
            RenderModels (if kvs = [] then NoModelsMessage else Cards cards),
            BindCardClicks, ShowLoading False]"
    by auto
next
  assume h: "get_prop response ''data'' = Inr d \<and>
    (\<forall>ys. js_or d response \<noteq> JArr ys) \<and> (\<forall>ps. js_or d response \<noteq> JObj ps)"
  then have "modelsList (js_or d response) = []"
    by (cases "js_or d response") (simp_all add: modelsList_def)
  then have "render_cards sel (modelsList (js_or d response)) = Inr []"
    by simp
  with h show "loadModels sel (Json response) =
        [ShowLoading True, ConsoleLog, Fetch (make_request [Lit ''/api/models''] get_opts),
         ConsoleLog, ConsoleLog, RenderModels NoModelsMessage,
         BindCardClicks, ShowLoading False]"
    by (simp add: loadModels_rendered)
next
  assume h: "get_prop response ''data'' = Inr d \<and>
    (\<exists>m\<in>set (modelsList (js_or d response)). \<forall>c. render_model_card sel m \<noteq> Inr c)"
  then have "render_cards sel (modelsList (js_or d response)) = Inl TypeError"
    by (simp add: render_cards_thrown)
  with h show "loadModels sel (Json response) =
        [ShowLoading True, ConsoleLog, Fetch (make_request [Lit ''/api/models''] get_opts),
         ConsoleLog, ConsoleLog, ConsoleError,
         Notify [Lit msg_load_models_failed] ''error'', ShowLoading False]"
    by (simp add: loadModels_caught)
next
  show "(\<exists>c. render_model_card sel model = Inr c) \<longleftrightarrow>
      \<not> nullish model \<and>
      (\<forall>p. get_prop model ''path'' = Inr p \<longrightarrow> \<not> to_string_throws p) \<and>
      (\<forall>n. get_prop model ''name'' = Inr n \<longrightarrow> \<not> to_string_throws n) \<and>
      (\<forall>t. get_prop model ''type'' = Inr t \<longrightarrow> \<not> to_string_throws t) \<and>
      (\<forall>q. get_prop model ''parameters'' = Inr q \<longrightarrow> \<not> to_locale_string_throws q)"
  proof (cases "nullish model")
    case True
    then show ?thesis
      by (simp add: render_model_card_def get_prop_nullish)
  next
    case False
    then obtain p n t q where f:
      "get_prop model ''path'' = Inr p" "get_prop model ''name'' = Inr n"
      "get_prop model ''type'' = Inr t" "get_prop model ''parameters'' = Inr q"
      using get_prop_defined by metis
    with False render_model_card_fields [OF f, of sel] show ?thesis
      by simp
  qed
next
  show "last (loadModels sel res) = ShowLoading False"
    by (simp add: loadModels_def)
qed

theorem loadModels_by_shape_witness:
  "(\<exists>cards. render_cards JNull [JObj [(''path'', JStr ''/models/a''), (''name'', JStr ''a'')]] = Inr cards \<and>
      length cards = 1 \<and>
      loadModels JNull (Json (JObj [(''data'',
          JArr [JObj [(''path'', JStr ''/models/a''), (''name'', JStr ''a'')]])])) =
        [ShowLoading True, ConsoleLog, Fetch (make_request [Lit ''/api/models''] get_opts),
         ConsoleLog, ConsoleLog, RenderModels (Cards cards), BindCardClicks, ShowLoading False]) \<and>
   (\<exists>cards. render_cards JNull [JObj [(''path'', JStr ''/models/a''), (''name'', JStr ''a'')]] = Inr cards \<and>
      length cards = 1 \<and>
      loadModels JNull (Json (JObj [(''data'',
          JObj [(''a'', JObj [(''path'', JStr ''/models/a''), (''name'', JStr ''a'')])])])) =
        [ShowLoading True, ConsoleLog, Fetch (make_request [Lit ''/api/models''] get_opts),
         ConsoleLog, ConsoleLog, RenderModels (Cards cards), BindCardClicks, ShowLoading False]) \<and>
   loadModels JNull (Json (JObj [(''data'', JStr ''none'')])) =
     [ShowLoading True, ConsoleLog, Fetch (make_request [Lit ''/api/models''] get_opts),
      ConsoleLog, ConsoleLog, RenderModels NoModelsMessage, BindCardClicks, ShowLoading False] \<and>
   loadModels JNull (Json (JObj [(''data'',
       JArr [JObj [(''parameters'', JObj [(''toLocaleString'', JNum 1)])]])])) =
     [ShowLoading True, ConsoleLog, Fetch (make_request [Lit ''/api/models''] get_opts),
      ConsoleLog, ConsoleLog, ConsoleError,
      Notify [Lit msg_load_models_failed] ''error'', ShowLoading False] \<and>
   (\<forall>c. render_model_card JNull (JObj [(''name'', JObj [(''toString'', JNum 1)])]) \<noteq> Inr c)"
  using
    loadModels_by_shape
      [where response = "JObj [(''data'',
                 JArr [JObj [(''path'', JStr ''/models/a''), (''name'', JStr ''a'')]])]"
         and d = "JArr [JObj [(''path'', JStr ''/models/a''), (''name'', JStr ''a'')]]"
         and xs = "[JObj [(''path'', JStr ''/models/a''), (''name'', JStr ''a'')]]"
         and kvs = "[]" and sel = JNull
         and model = "JObj [(''path'', JStr ''/models/a''), (''name'', JStr ''a'')]"]
    loadModels_by_shape
      [where response = "JObj [(''data'',
                 JObj [(''a'', JObj [(''path'', JStr ''/models/a''), (''name'', JStr ''a'')])])]"
         and d = "JObj [(''a'', JObj [(''path'', JStr ''/models/a''), (''name'', JStr ''a'')])]"
         and kvs = "[(''a'', JObj [(''path'', JStr ''/models/a''), (''name'', JStr ''a'')])]"
         and xs = "[]" and sel = JNull
         and model = "JObj [(''path'', JStr ''/models/a''), (''name'', JStr ''a'')]"]
    loadModels_by_shape
      [where response = "JObj [(''data'', JStr ''none'')]" and d = "JStr ''none''"
         and xs = "[]" and kvs = "[]" and sel = JNull and model = JNull]
    loadModels_by_shape
      [where response = "JObj [(''data'',
                 JArr [JObj [(''parameters'', JObj [(''toLocaleString'', JNum 1)])]])]"
         and d = "JArr [JObj [(''parameters'', JObj [(''toLocaleString'', JNum 1)])]]"
         and xs = "[]" and kvs = "[]" and sel = JNull
         and model = "JObj [(''parameters'', JObj [(''toLocaleString'', JNum 1)])]"]
    loadModels_by_shape
      [where response = JNull and sel = JNull
         and model = "JObj [(''name'', JObj [(''toString'', JNum 1)])]"]
  by (simp add: js_or_def nullish_def modelsList_def)

text \<open>
  The claim as first stated fails where the \<open>data\<close> field is missing or falsy: the
  response itself is then the raw data, and its values are rendered. For
  \<open>{data: null}\<close> the value \<open>null\<close> makes the template throw, and the failure is
  reported; for \<open>{success: true}\<close> a card is rendered for the value \<open>true\<close>. Neither
  shows the message for no models.
\<close>

theorem loadModels_other_shape_counterexample:
  "loadModels JNull (Json (JObj [(''data'', JNull)])) =
     [ShowLoading True, ConsoleLog, Fetch (make_request [Lit ''/api/models''] get_opts),
      ConsoleLog, ConsoleLog, ConsoleError,
      Notify [Lit msg_load_models_failed] ''error'', ShowLoading False] \<and>
   loadModels JNull (Json (JObj [(''success'', JBool True)])) =
     [ShowLoading True, ConsoleLog, Fetch (make_request [Lit ''/api/models''] get_opts),
      ConsoleLog, ConsoleLog,
      RenderModels (Cards [\<lparr> card_selected = False, card_data_path = JStr [],
                              card_name = JStr txt_unnamed_model,
                              card_type = JStr txt_unknown_type,
                              card_path = JStr ''-'', card_parameters = None \<rparr>]),
      BindCardClicks, ShowLoading False]"
  by (simp add: loadModels_def rawData_def apiRequest_def api_issue_def api_settle_def
        load_models_failed_def showNotification_def modelsList_def js_or_def
        render_model_card_def nullish_def)

end
